theory Spec2Isabelle
  imports Main
begin

section \<open>Python values\<close>

text \<open>
  A Python \<open>str\<close> is a sequence of Unicode code points, and \<open>len\<close> counts code points:
  a string is a list of naturals. ASCII literals of the source are written through
  \<open>str\<close>; the other code points of a literal are given by number.
\<close>

type_synonym pystr = "nat list"

definition str :: "string \<Rightarrow> pystr" where
  "str s = map of_char s"

text \<open>
  The values that travel through the dictionaries of the module. Dictionary keys are
  always ASCII literals in the source, so a dictionary is an association list from
  \<open>string\<close> keys, in insertion order. \<open>PTime t\<close> is a \<open>datetime\<close> object for the
  instant \<open>t\<close>.
\<close>

datatype pyval =
    PNone
  | PBool bool
  | PInt int
  | PStr pystr
  | PTime nat
  | PList "pyval list"
  | PDict "(string \<times> pyval) list"

type_synonym pydict = "(string \<times> pyval) list"

text \<open>\<open>d.get(k, default)\<close> and \<open>d.get(k)\<close>.\<close>

definition dict_get :: "pydict \<Rightarrow> string \<Rightarrow> pyval \<Rightarrow> pyval" where
  "dict_get d k dflt = (case map_of d k of None \<Rightarrow> dflt | Some v \<Rightarrow> v)"

text \<open>Truth value of an object in a condition.\<close>

fun truthy :: "pyval \<Rightarrow> bool" where
  "truthy PNone = False"
| "truthy (PBool b) = b"
| "truthy (PInt i) = (i \<noteq> 0)"
| "truthy (PStr s) = (s \<noteq> [])"
| "truthy (PTime t) = True"
| "truthy (PList xs) = (xs \<noteq> [])"
| "truthy (PDict d) = (d \<noteq> [])"

text \<open>
  A raised object; \<open>str(e)\<close> is its message. \<open>Exn\<close> is an instance of \<open>Exception\<close>;
  \<open>BaseExn\<close> is an instance of \<open>BaseException\<close> that is not one of \<open>Exception\<close>
  (\<open>asyncio.CancelledError\<close>, \<open>KeyboardInterrupt\<close>, \<open>SystemExit\<close>).
\<close>

datatype exn = Exn pystr | BaseExn pystr

fun exn_str :: "exn \<Rightarrow> pystr" where
  "exn_str (Exn m) = m"
| "exn_str (BaseExn m) = m"

text \<open>Every handler of the module is \<open>except Exception\<close>: what it catches.\<close>

fun caught :: "exn \<Rightarrow> bool" where
  "caught (Exn m) = True"
| "caught (BaseExn m) = False"

text \<open>
  \<open>x > 0\<close> for a value taken out of a dictionary: defined on numbers
  (\<open>True\<close> counts as 1), a \<open>TypeError\<close> on everything else.
\<close>

fun gt_zero :: "pyval \<Rightarrow> exn + bool" where
  "gt_zero (PInt i) = Inr (0 < i)"
| "gt_zero (PBool b) = Inr b"
| "gt_zero v = Inl (Exn (str ''TypeError''))"

section \<open>Field extraction (lines 66-85)\<close>

text \<open>
  One element of \<open>answers\<close>: a dictionary read with \<open>answer.get("id", 0)\<close> and
  \<open>answer.get("answer", "")\<close>; a field is \<open>None\<close> when its key is absent.
\<close>

record answer =
  answer_id :: "int option"
  answer_text :: "pystr option"

text \<open>\<open>lead_data\<close>: only the key \<open>answers\<close> is read; \<open>None\<close> when it is absent.\<close>

record lead_data =
  answers :: "answer list option"

text \<open>
  \<open>s.isdigit()\<close>: true when the string is not empty and every character is a digit.
  Which code points count as digits is Python's Unicode table, a parameter here.
\<close>

definition isdigit :: "(nat \<Rightarrow> bool) \<Rightarrow> pystr \<Rightarrow> bool" where
  "isdigit dig s = (s \<noteq> [] \<and> list_all dig s)"

record lead_fields =
  lead_name :: pystr
  lead_phone :: pystr
  area :: pystr
  situation :: pystr

text \<open>The four initial values of lines 68-71 (\<open>0xE3\<close> is a with tilde).\<close>

definition placeholders :: lead_fields where
  "placeholders =
     \<lparr> lead_name = str ''Cliente n'' @ [0xE3] @ str ''o identificado'',
       lead_phone = str ''N'' @ [0xE3] @ str ''o informado'',
       area = str ''N'' @ [0xE3] @ str ''o informada'',
       situation = str ''N'' @ [0xE3] @ str ''o detalhada'' \<rparr>"

text \<open>\<open>answer.get("id", 0)\<close> and \<open>answer.get("answer", "")\<close> (lines 75-76).\<close>

definition get_id :: "answer \<Rightarrow> int" where
  "get_id a = (case answer_id a of None \<Rightarrow> 0 | Some i \<Rightarrow> i)"

definition get_text :: "answer \<Rightarrow> pystr" where
  "get_text a = (case answer_text a of None \<Rightarrow> [] | Some t \<Rightarrow> t)"

text \<open>The body of the loop over the answers (lines 75-85).\<close>

definition parse_answer :: "(nat \<Rightarrow> bool) \<Rightarrow> lead_fields \<Rightarrow> answer \<Rightarrow> lead_fields" where
  "parse_answer dig f a =
     (if get_id a = 1 then f\<lparr>lead_name := get_text a\<rparr>
      else if get_id a = 2 then f\<lparr>area := get_text a\<rparr>
      else if get_id a = 3 then f\<lparr>situation := get_text a\<rparr>
      else if get_id a \<ge> 4 \<and> isdigit dig (get_text a) then f\<lparr>lead_phone := get_text a\<rparr>
      else f)"

fun parse_answers :: "(nat \<Rightarrow> bool) \<Rightarrow> lead_fields \<Rightarrow> answer list \<Rightarrow> lead_fields" where
  "parse_answers dig f [] = f"
| "parse_answers dig f (a # as) = parse_answers dig (parse_answer dig f a) as"

text \<open>\<open>lead_data.get("answers", [])\<close>, then the loop from the placeholders.\<close>

definition get_answers :: "lead_data \<Rightarrow> answer list" where
  "get_answers ld = (case answers ld of None \<Rightarrow> [] | Some xs \<Rightarrow> xs)"

definition extract_lead_fields :: "(nat \<Rightarrow> bool) \<Rightarrow> lead_data \<Rightarrow> lead_fields" where
  "extract_lead_fields dig ld = parse_answers dig placeholders (get_answers ld)"

section \<open>The outgoing message (lines 144-155)\<close>

definition nl :: pystr where
  "nl = [10]"

text \<open>
  The f-string, piece by piece. \<open>stamp\<close> is what
  \<open>datetime.now().strftime(...)\<close> returned.
\<close>

definition notification_message ::
  "pystr \<Rightarrow> pystr \<Rightarrow> pystr \<Rightarrow> pystr \<Rightarrow> pystr \<Rightarrow> pystr \<Rightarrow> pystr" where
  "notification_message lead_id name phone ar sit stamp =
     [0x1F6A8] @ str '' *Novo Cliente Recebido!*'' @ nl
     @ nl
     @ [0x1F464] @ str '' *Nome:* '' @ name @ nl
     @ [0x1F4DE] @ str '' *Telefone:* '' @ phone @ nl
     @ [0x2696, 0xFE0F] @ str '' *'' @ [0xC1] @ str ''rea:* '' @ ar @ nl
     @ [0x1F4DD] @ str '' *Situa'' @ [0xE7, 0xE3] @ str ''o:* ''
       @ take 200 sit @ (if length sit > 200 then str ''...'' else []) @ nl
     @ nl
     @ [0x1F194] @ str '' *Lead ID:* '' @ lead_id @ nl
     @ [0x23F0] @ str '' *Recebido em:* '' @ stamp @ nl
     @ nl
     @ str ''_Mensagem enviada automaticamente pelo sistema de capta''
       @ [0xE7, 0xE3] @ str ''o de leads._''"

section \<open>The world outside the module\<close>

text \<open>
  Every call of \<open>logger\<close> is an entry of the log: its level and its call site, with the
  values the message interpolates.
\<close>

datatype level = INFO | WARNING | ERROR

datatype log_call =
    Notifications_disabled pystr
  | Lead_not_found pystr
  | Already_notified pystr
  | Sending_notification pystr pystr
  | Marked_notified pystr
  | Update_error pystr
  | Dispatch_error pystr
  | No_phone pystr
  | Sent_to pystr
  | Failed_to pystr
  | Lawyer_error pystr pystr
  | Fanout_error pystr
  | Check_error pystr
  | Reset_done pystr
  | Reset_error pystr

text \<open>Calls into Firestore: obtaining the client, reading and updating a document.\<close>

datatype store_op = Get_client | Doc_get pystr | Doc_update pystr pydict

type_synonym doc = "string \<rightharpoonup> pyval"

text \<open>
  The state a call runs in and leaves behind: the \<open>leads\<close> collection, the store calls
  made so far, the messages handed to the messaging client (number and text, one entry
  per attempt), the log, and how often the clock has been read.
\<close>

record world =
  leads :: "pystr \<rightharpoonup> doc"
  store_ops :: "store_op list"
  sent :: "(pystr \<times> pystr) list"
  log :: "(level \<times> log_call) list"
  ticks :: nat

text \<open>A configured lawyer: a dictionary read with \<open>lawyer.get("name", ...)\<close> and
  \<open>lawyer.get("phone", ...)\<close>; a field is \<open>None\<close> when its key is absent.\<close>

record lawyer =
  lawyer_name :: "pystr option"
  lawyer_phone :: "pystr option"

text \<open>
  What the collaborators do during one call. The imported modules
  (\<open>firebase_service\<close>, \<open>baileys_service\<close>, \<open>config.lawyers\<close>) and the standard
  library are parameters: each call either returns or raises.
  \<^item> \<open>ENABLE_WHATSAPP\<close>: the environment variable, \<open>None\<close> when unset;
  \<^item> \<open>client_error\<close>: the exception \<open>get_firestore_client()\<close> raises, if any;
  \<^item> \<open>get_error\<close>: the exception the lookup
    \<open>db.collection("leads").document(lead_id).get()\<close> raises, if any;
  \<^item> \<open>update_error\<close>: the exception \<open>lead_ref.update(...)\<close> raises, if any (in the
    reset, where the reference is built just before, also that of building it);
  \<^item> \<open>lawyers_config\<close>: the outcome of \<open>get_lawyers_for_notification()\<close>;
  \<^item> \<open>format_phone\<close>: \<open>format_lawyer_phone_for_whatsapp\<close>;
  \<^item> \<open>send_outcome k number text\<close>: the outcome of \<open>send_whatsapp_message\<close> when
    \<open>k\<close> attempts were made before;
  \<^item> \<open>clock k\<close>: the instant the clock shows at its \<open>k\<close>-th reading;
    \<open>strftime\<close> and \<open>isoformat\<close> render an instant;
  \<^item> \<open>unicode_digit\<close>: the code points \<open>str.isdigit\<close> accepts.
\<close>

record env =
  ENABLE_WHATSAPP :: "pystr option"
  client_error :: "exn option"
  get_error :: "exn option"
  update_error :: "exn option"
  lawyers_config :: "exn + lawyer list"
  format_phone :: "pystr \<Rightarrow> exn + pystr"
  send_outcome :: "nat \<Rightarrow> pystr \<Rightarrow> pystr \<Rightarrow> exn + bool"
  clock :: "nat \<Rightarrow> nat"
  strftime :: "nat \<Rightarrow> pystr"
  isoformat :: "nat \<Rightarrow> pystr"
  unicode_digit :: "nat \<Rightarrow> bool"

definition add_log :: "level \<Rightarrow> log_call \<Rightarrow> world \<Rightarrow> world" where
  "add_log lv c w = w\<lparr>log := log w @ [(lv, c)]\<rparr>"

text \<open>\<open>datetime.now(...)\<close>.\<close>

definition now :: "env \<Rightarrow> world \<Rightarrow> nat \<times> world" where
  "now e w = (clock e (ticks w), w\<lparr>ticks := Suc (ticks w)\<rparr>)"

text \<open>\<open>s.lower()\<close> on the ASCII letters; the only other code point whose lower case
  is an ASCII letter is the Kelvin sign, which becomes \<open>k\<close>, so the comparison with
  \<open>"true"\<close> below is not affected.\<close>

definition lower :: "pystr \<Rightarrow> pystr" where
  "lower s = map (\<lambda>c. if 65 \<le> c \<and> c \<le> 90 then c + 32 else c) s"

text \<open>\<open>os.getenv("ENABLE_WHATSAPP", "false").lower() == "true"\<close> (line 33).\<close>

definition whatsapp_enabled :: "env \<Rightarrow> bool" where
  "whatsapp_enabled e =
     (lower (case ENABLE_WHATSAPP e of None \<Rightarrow> str ''false'' | Some v \<Rightarrow> v) = str ''true'')"

definition get_firestore_client :: "env \<Rightarrow> world \<Rightarrow> (exn + unit) \<times> world" where
  "get_firestore_client e w =
     (let w' = w\<lparr>store_ops := store_ops w @ [Get_client]\<rparr>
      in case client_error e of Some x \<Rightarrow> (Inl x, w') | None \<Rightarrow> (Inr (), w'))"

text \<open>The lookup \<open>db.collection("leads").document(lead_id).get()\<close>: the snapshot,
  \<open>None\<close> when \<open>lead_doc.exists\<close> is false.\<close>

definition doc_get :: "env \<Rightarrow> pystr \<Rightarrow> world \<Rightarrow> (exn + doc option) \<times> world" where
  "doc_get e lead_id w =
     (let w' = w\<lparr>store_ops := store_ops w @ [Doc_get lead_id]\<rparr>
      in case get_error e of Some x \<Rightarrow> (Inl x, w') | None \<Rightarrow> (Inr (leads w lead_id), w'))"

text \<open>
  \<open>lead_ref.update(upd)\<close>: the named fields are overwritten and the others kept;
  Firestore raises \<open>NotFound\<close> when the document does not exist. An update that raises
  leaves the collection as it was.
\<close>

definition doc_update :: "env \<Rightarrow> pystr \<Rightarrow> pydict \<Rightarrow> world \<Rightarrow> (exn + unit) \<times> world" where
  "doc_update e lead_id upd w =
     (let w' = w\<lparr>store_ops := store_ops w @ [Doc_update lead_id upd]\<rparr>
      in case update_error e of
           Some x \<Rightarrow> (Inl x, w')
         | None \<Rightarrow>
             (case leads w lead_id of
                None \<Rightarrow> (Inl (Exn (str ''NotFound'')), w')
              | Some d \<Rightarrow> (Inr (), w'\<lparr>leads := (leads w)(lead_id \<mapsto> d ++ map_of upd)\<rparr>)))"

text \<open>\<open>record.get(k, default)\<close> on the dictionary of a document.\<close>

definition doc_field :: "doc \<Rightarrow> string \<Rightarrow> pyval \<Rightarrow> pyval" where
  "doc_field d k dflt = (case d k of None \<Rightarrow> dflt | Some v \<Rightarrow> v)"

section \<open>Fan-out to the lawyers (lines 119-213)\<close>

text \<open>
  The handler of the inner \<open>try\<close> (lines 188-196); what it does not catch goes on to
  the caller.
\<close>

definition lawyer_failed ::
  "env \<Rightarrow> lawyer \<Rightarrow> exn \<Rightarrow> world \<Rightarrow> (exn + pyval option \<times> bool) \<times> world" where
  "lawyer_failed e l x w =
     (if \<not> caught x then (Inl x, w)
      else
        (let unknown = str ''Unknown'';
             w1 = add_log ERROR
                    (Lawyer_error (case lawyer_name l of None \<Rightarrow> unknown | Some n \<Rightarrow> n)
                       (exn_str x)) w;
             (t, w2) = now e w1
         in (Inr (Some (PDict
                     [(''lawyer'', PStr (case lawyer_name l of None \<Rightarrow> unknown | Some n \<Rightarrow> n)),
                      (''phone'', PStr (case lawyer_phone l of None \<Rightarrow> unknown | Some p \<Rightarrow> p)),
                      (''success'', PBool False),
                      (''error'', PStr (exn_str x)),
                      (''timestamp'', PStr (isoformat e t))]), False), w2)))"

text \<open>
  The body of the loop over the lawyers (lines 158-196): the entry appended to
  \<open>results\<close>, if any, and whether \<open>successful_notifications\<close> is incremented.
\<close>

definition notify_lawyer ::
  "env \<Rightarrow> pystr \<Rightarrow> lawyer \<Rightarrow> world \<Rightarrow> (exn + pyval option \<times> bool) \<times> world" where
  "notify_lawyer e msg l w =
     (let name = (case lawyer_name l of None \<Rightarrow> str ''Advogado'' | Some n \<Rightarrow> n);
          phone = (case lawyer_phone l of None \<Rightarrow> [] | Some p \<Rightarrow> p)
      in if phone = [] then (Inr (None, False), add_log WARNING (No_phone name) w)
         else
           (case format_phone e phone of
              Inl x \<Rightarrow> lawyer_failed e l x w
            | Inr number \<Rightarrow>
                (let w1 = w\<lparr>sent := sent w @ [(number, msg)]\<rparr>
                 in case send_outcome e (length (sent w)) number msg of
                      Inl x \<Rightarrow> lawyer_failed e l x w1
                    | Inr ok \<Rightarrow>
                        (let (t, w2) = now e w1
                         in (Inr (Some (PDict
                                     [(''lawyer'', PStr name),
                                      (''phone'', PStr phone),
                                      (''success'', PBool ok),
                                      (''timestamp'', PStr (isoformat e t))]), ok),
                             if ok then add_log INFO (Sent_to name) w2
                             else add_log ERROR (Failed_to name) w2)))))"

fun notify_lawyers ::
  "env \<Rightarrow> pystr \<Rightarrow> lawyer list \<Rightarrow> pyval list \<Rightarrow> nat \<Rightarrow> world
     \<Rightarrow> (exn + pyval list \<times> nat) \<times> world" where
  "notify_lawyers e msg [] results n w = (Inr (results, n), w)"
| "notify_lawyers e msg (l # ls) results n w =
     (case notify_lawyer e msg l w of
        (Inl x, w') \<Rightarrow> (Inl x, w')
      | (Inr (r, ok), w') \<Rightarrow>
          notify_lawyers e msg ls
            (case r of None \<Rightarrow> results | Some y \<Rightarrow> results @ [y])
            (if ok then Suc n else n) w')"

text \<open>The \<open>try\<close> block of \<open>_send_notifications_to_lawyers\<close> (lines 140-205).\<close>

definition send_notifications_to_lawyers_try ::
  "env \<Rightarrow> pystr \<Rightarrow> lead_fields \<Rightarrow> world \<Rightarrow> (exn + pydict) \<times> world" where
  "send_notifications_to_lawyers_try e lead_id f w =
     (case lawyers_config e of
        Inl x \<Rightarrow> (Inl x, w)
      | Inr lawyers \<Rightarrow>
          (let (t0, w0) = now e w;
               msg = notification_message lead_id (lead_name f) (lead_phone f) (area f)
                       (situation f) (strftime e t0)
           in case notify_lawyers e msg lawyers [] 0 w0 of
                (Inl x, w1) \<Rightarrow> (Inl x, w1)
              | (Inr (results, n), w1) \<Rightarrow>
                  (let (t1, w2) = now e w1
                   in (Inr [(''success'', PBool (0 < n)),
                            (''notifications_sent'', PInt (int n)),
                            (''total_lawyers'', PInt (int (length lawyers))),
                            (''results'', PList results),
                            (''lead_id'', PStr lead_id),
                            (''timestamp'', PStr (isoformat e t1))], w2))))"

text \<open>
  \<open>_send_notifications_to_lawyers\<close> with its handler (lines 207-213). \<open>Inl\<close> is an
  exception going on to the caller.
\<close>

definition send_notifications_to_lawyers ::
  "env \<Rightarrow> pystr \<Rightarrow> lead_fields \<Rightarrow> world \<Rightarrow> (exn + pydict) \<times> world" where
  "send_notifications_to_lawyers e lead_id f w =
     (case send_notifications_to_lawyers_try e lead_id f w of
        (Inr r, w') \<Rightarrow> (Inr r, w')
      | (Inl x, w') \<Rightarrow>
          if caught x then
            (Inr [(''success'', PBool False),
                  (''notifications_sent'', PInt 0),
                  (''error'', PStr (exn_str x))],
             add_log ERROR (Fanout_error (exn_str x)) w')
          else (Inl x, w'))"

section \<open>The three public operations\<close>

text \<open>The dictionary handed to \<open>lead_ref.update\<close> (lines 97-102).\<close>

definition commit_fields :: "nat \<Rightarrow> pydict \<Rightarrow> nat \<Rightarrow> pydict" where
  "commit_fields t1 notification_result t2 =
     [(''was_notified'', PBool True),
      (''notified_at'', PTime t1),
      (''notification_result'', PDict notification_result),
      (''updated_at'', PTime t2)]"

text \<open>
  The \<open>try\<close> block of \<open>send_new_lead_notification\<close> (lines 32-107), with the inner
  handler of the update (lines 104-105).
\<close>

definition send_new_lead_notification_try ::
  "env \<Rightarrow> pystr \<Rightarrow> lead_data \<Rightarrow> world \<Rightarrow> (exn + pydict) \<times> world" where
  "send_new_lead_notification_try e lead_id ld w =
     (if \<not> whatsapp_enabled e then
        (Inr [(''success'', PBool False),
              (''reason'', PStr (str ''whatsapp_disabled'')),
              (''message'', PStr (str ''WhatsApp notifications are disabled via environment variable''))],
         add_log INFO (Notifications_disabled lead_id) w)
      else
        (case get_firestore_client e w of
           (Inl x, w1) \<Rightarrow> (Inl x, w1)
         | (Inr u, w1) \<Rightarrow>
             (case doc_get e lead_id w1 of
                (Inl x, w2) \<Rightarrow> (Inl x, w2)
              | (Inr None, w2) \<Rightarrow>
                  (Inr [(''success'', PBool False),
                        (''reason'', PStr (str ''lead_not_found'')),
                        (''message'', PStr (str ''Lead '' @ lead_id @ str '' not found''))],
                   add_log ERROR (Lead_not_found lead_id) w2)
              | (Inr (Some lead_record), w2) \<Rightarrow>
                  if truthy (doc_field lead_record ''was_notified'' (PBool False)) then
                    (Inr [(''success'', PBool False),
                          (''reason'', PStr (str ''already_notified'')),
                          (''message'', PStr (str ''Lead '' @ lead_id @ str '' was already notified''))],
                     add_log INFO (Already_notified lead_id) w2)
                  else
                    (let f = extract_lead_fields (unicode_digit e) ld;
                         w3 = add_log INFO (Sending_notification (lead_name f) (area f)) w2
                     in case send_notifications_to_lawyers e lead_id f w3 of
                          (Inl x, w4) \<Rightarrow> (Inl x, w4)
                        | (Inr notification_result, w4) \<Rightarrow>
                            (case gt_zero (dict_get notification_result ''notifications_sent''
                                             (PInt 0)) of
                               Inl x \<Rightarrow> (Inl x, w4)
                             | Inr False \<Rightarrow> (Inr notification_result, w4)
                             | Inr True \<Rightarrow>
                                 (let (t1, w5) = now e w4;
                                      (t2, w6) = now e w5
                                  in case doc_update e lead_id
                                            (commit_fields t1 notification_result t2) w6 of
                                       (Inl x, w7) \<Rightarrow>
                                         if caught x then
                                           (Inr notification_result,
                                            add_log ERROR (Update_error (exn_str x)) w7)
                                         else (Inl x, w7)
                                     | (Inr u', w7) \<Rightarrow>
                                         (Inr notification_result,
                                          add_log INFO (Marked_notified lead_id) w7)))))))"

text \<open>
  The whole operation: the handler of lines 109-116 turns every \<open>Exception\<close> of the
  block into a result. \<open>Inl\<close> is an exception reaching the caller.
\<close>

definition send_new_lead_notification ::
  "env \<Rightarrow> pystr \<Rightarrow> lead_data \<Rightarrow> world \<Rightarrow> (exn + pydict) \<times> world" where
  "send_new_lead_notification e lead_id ld w =
     (case send_new_lead_notification_try e lead_id ld w of
        (Inr r, w') \<Rightarrow> (Inr r, w')
      | (Inl x, w') \<Rightarrow>
          if caught x then
            (Inr [(''success'', PBool False),
                  (''reason'', PStr (str ''error'')),
                  (''message'', PStr (exn_str x)),
                  (''notifications_sent'', PInt 0)],
             add_log ERROR (Dispatch_error (exn_str x)) w')
          else (Inl x, w'))"





section \<open>The main path\<close>

text \<open>
  When the checks of lines 32-64 have passed, the fan-out of line 90 starts in the
  world \<open>before_fanout\<close>: the client was obtained, the document read, and line 87 logged.
\<close>

definition before_fanout :: "env \<Rightarrow> pystr \<Rightarrow> lead_data \<Rightarrow> world \<Rightarrow> world" where
  "before_fanout e lead_id ld w =
     add_log INFO
       (Sending_notification (lead_name (extract_lead_fields (unicode_digit e) ld))
          (area (extract_lead_fields (unicode_digit e) ld)))
       (w\<lparr>store_ops := store_ops w @ [Get_client, Doc_get lead_id]\<rparr>)"

definition main_path_fanout ::
  "env \<Rightarrow> pystr \<Rightarrow> lead_data \<Rightarrow> world \<Rightarrow> (exn + pydict) \<times> world" where
  "main_path_fanout e lead_id ld w =
     send_notifications_to_lawyers e lead_id (extract_lead_fields (unicode_digit e) ld)
       (before_fanout e lead_id ld w)"

text \<open>The value under a key of the dictionary an operation returned.\<close>

definition result_field :: "(exn + pydict) \<times> world \<Rightarrow> string \<Rightarrow> pyval option" where
  "result_field out k = (case fst out of Inl x \<Rightarrow> None | Inr r \<Rightarrow> map_of r k)"

section \<open>Concrete inputs\<close>

text \<open>The ASCII digits, which every version of the Unicode table counts as digits.\<close>

definition ascii_digit :: "nat \<Rightarrow> bool" where
  "ascii_digit c = (48 \<le> c \<and> c \<le> 57)"

definition example_answers :: "answer list" where
  "example_answers =
     [\<lparr>answer_id = Some 1, answer_text = Some (str ''Ana'')\<rparr>,
      \<lparr>answer_id = Some 2, answer_text = Some (str ''Criminal'')\<rparr>,
      \<lparr>answer_id = Some 3, answer_text = Some (str ''Dispute'')\<rparr>,
      \<lparr>answer_id = Some 4, answer_text = Some (str ''11999999999'')\<rparr>]"

definition duplicate_answers :: "answer list" where
  "duplicate_answers =
     [\<lparr>answer_id = Some 1, answer_text = Some (str ''Ana'')\<rparr>,
      \<lparr>answer_id = Some 4, answer_text = Some (str ''111'')\<rparr>,
      \<lparr>answer_id = Some 1, answer_text = Some (str ''Bia'')\<rparr>,
      \<lparr>answer_id = Some 5, answer_text = Some (str ''222'')\<rparr>]"

text \<open>
  Two lawyers; the first send is accepted and the second refused. The store holds the
  new lead \<open>L1\<close> and the lead \<open>L2\<close>, already notified.
\<close>

definition example_env :: env where
  "example_env =
     \<lparr> ENABLE_WHATSAPP = Some (str ''true''),
       client_error = None,
       get_error = None,
       update_error = None,
       lawyers_config =
         Inr [\<lparr>lawyer_name = Some (str ''Rita''), lawyer_phone = Some (str ''5511911111111'')\<rparr>,
              \<lparr>lawyer_name = Some (str ''Joao''), lawyer_phone = Some (str ''5511922222222'')\<rparr>],
       format_phone = (\<lambda>p. Inr (p @ str ''@s.whatsapp.net'')),
       send_outcome = (\<lambda>k number text. Inr (k = 0)),
       clock = (\<lambda>k. 1000 + k),
       strftime = (\<lambda>t. str ''03/11/2026 10:00''),
       isoformat = (\<lambda>t. str ''T'' @ replicate t 49),
       unicode_digit = ascii_digit \<rparr>"

definition example_world :: world where
  "example_world =
     \<lparr> leads = [str ''L1'' \<mapsto> [''status'' \<mapsto> PStr (str ''new'')],
                str ''L2'' \<mapsto> [''was_notified'' \<mapsto> PBool True]],
       store_ops = [],
       sent = [],
       log = [],
       ticks = 0 \<rparr>"

text \<open>A field of a stored lead, \<open>None\<close> when the lead or the field is absent.\<close>

definition stored_field :: "world \<Rightarrow> pystr \<Rightarrow> string \<Rightarrow> pyval option" where
  "stored_field w lead_id k = (case leads w lead_id of None \<Rightarrow> None | Some d \<Rightarrow> d k)"

text \<open>The same collaborators with \<open>ENABLE_WHATSAPP\<close> unset.\<close>

definition disabled_env :: env where
  "disabled_env = example_env\<lparr>ENABLE_WHATSAPP := None\<rparr>"

text \<open>
  The lead of the example, the result of its dispatch, and two faulty variants of the
  collaborators: the update of the store raises; the list of lawyers cannot be loaded.
\<close>

definition example_lead :: lead_data where
  "example_lead = \<lparr>answers = Some example_answers\<rparr>"

definition example_result :: pydict where
  "example_result =
     [(''success'', PBool True),
      (''notifications_sent'', PInt 1),
      (''total_lawyers'', PInt 2),
      (''results'', PList
         [PDict [(''lawyer'', PStr (str ''Rita'')), (''phone'', PStr (str ''5511911111111'')),
                 (''success'', PBool True), (''timestamp'', PStr (isoformat example_env 1001))],
          PDict [(''lawyer'', PStr (str ''Joao'')), (''phone'', PStr (str ''5511922222222'')),
                 (''success'', PBool False), (''timestamp'', PStr (isoformat example_env 1002))]]),
      (''lead_id'', PStr (str ''L1'')),
      (''timestamp'', PStr (isoformat example_env 1003))]"

definition failing_update_env :: env where
  "failing_update_env = example_env\<lparr>update_error := Some (Exn (str ''unavailable''))\<rparr>"

definition failing_config_env :: env where
  "failing_config_env = example_env\<lparr>lawyers_config := Inl (Exn (str ''no config''))\<rparr>"

section \<open>What the fan-out hands to the messaging client\<close>

text \<open>
  The sends of the loop, lawyer by lawyer: one, to the formatted number, for each lawyer
  that has a non-empty phone and whose number formats.
\<close>

definition fanout_sends :: "env \<Rightarrow> pystr \<Rightarrow> lawyer list \<Rightarrow> (pystr \<times> pystr) list" where
  "fanout_sends e msg ls =
     concat (map (\<lambda>l. case lawyer_phone l of
                        None \<Rightarrow> []
                      | Some p \<Rightarrow>
                          if p = [] then []
                          else (case format_phone e p of
                                  Inl x \<Rightarrow> []
                                | Inr number \<Rightarrow> [(number, msg)])) ls)"

text \<open>The message of a dispatch started in the world \<open>w\<close>.\<close>

definition dispatch_message :: "env \<Rightarrow> pystr \<Rightarrow> lead_data \<Rightarrow> world \<Rightarrow> pystr" where
  "dispatch_message e lead_id ld w =
     notification_message lead_id
       (lead_name (extract_lead_fields (unicode_digit e) ld))
       (lead_phone (extract_lead_fields (unicode_digit e) ld))
       (area (extract_lead_fields (unicode_digit e) ld))
       (situation (extract_lead_fields (unicode_digit e) ld))
       (strftime e (clock e (ticks w)))"

text \<open>
  The collaborators raise nothing but instances of \<open>Exception\<close>.
\<close>

definition only_exceptions :: "env \<Rightarrow> bool" where
  "only_exceptions e =
     ((case client_error e of None \<Rightarrow> True | Some x \<Rightarrow> caught x)
      \<and> (case get_error e of None \<Rightarrow> True | Some x \<Rightarrow> caught x)
      \<and> (case update_error e of None \<Rightarrow> True | Some x \<Rightarrow> caught x)
      \<and> (case lawyers_config e of Inl x \<Rightarrow> caught x | Inr ls \<Rightarrow> True)
      \<and> (\<forall>p. case format_phone e p of Inl x \<Rightarrow> caught x | Inr number \<Rightarrow> True)
      \<and> (\<forall>k number text. case send_outcome e k number text of
                             Inl x \<Rightarrow> caught x | Inr ok \<Rightarrow> True))"

section \<open>Collaborators that raise a \<open>BaseException\<close>\<close>



text \<open>A lead whose situation has 201 characters.\<close>

definition long_lead :: lead_data where
  "long_lead = \<lparr>answers = Some [\<lparr>answer_id = Some 3, answer_text = Some (replicate 201 120)\<rparr>]\<rparr>"

section \<open>Field extraction: what the loop computes\<close>

text \<open>
  Each field ends as the text of the last answer that matches its rule, or as its
  initial value when none does.
\<close>

lemma parse_answers_name:
  "lead_name (parse_answers dig f as) =
     (case filter (\<lambda>a. get_id a = 1) as of [] \<Rightarrow> lead_name f | xs \<Rightarrow> get_text (last xs))"
  by (induction as arbitrary: f) (auto simp: parse_answer_def split: list.splits)

lemma parse_answers_area:
  "area (parse_answers dig f as) =
     (case filter (\<lambda>a. get_id a = 2) as of [] \<Rightarrow> area f | xs \<Rightarrow> get_text (last xs))"
  by (induction as arbitrary: f) (auto simp: parse_answer_def split: list.splits)

lemma parse_answers_situation:
  "situation (parse_answers dig f as) =
     (case filter (\<lambda>a. get_id a = 3) as of [] \<Rightarrow> situation f | xs \<Rightarrow> get_text (last xs))"
  by (induction as arbitrary: f) (auto simp: parse_answer_def split: list.splits)

lemma parse_answers_phone:
  "lead_phone (parse_answers dig f as) =
     (case filter (\<lambda>a. 4 \<le> get_id a \<and> isdigit dig (get_text a)) as of
        [] \<Rightarrow> lead_phone f | xs \<Rightarrow> get_text (last xs))"
  by (induction as arbitrary: f) (auto simp: parse_answer_def split: list.splits)

lemma last_filtered:
  assumes "P a" and "\<forall>y\<in>set ys. \<not> P y"
  shows "(case filter P (xs @ a # ys) of [] \<Rightarrow> d | z # zs \<Rightarrow> g (last (z # zs))) = g a"
proof -
  have f: "filter P (xs @ a # ys) = filter P xs @ [a]"
    using assms by (simp add: filter_empty_conv)
  obtain z zs where zz: "filter P xs @ [a] = z # zs"
    by (cases "filter P xs @ [a]") auto
  have l: "last (z # zs) = a"
    using zz by (metis last_snoc)
  show ?thesis
    unfolding f zz by (simp only: list.case l)
qed

text \<open>
  C6. Extraction by id: when no answer matches a rule the field keeps its literal
  placeholder; when exactly one answer matches, the answer with id 1 gives the name,
  id 2 the area, id 3 the situation, and an answer with id at least 4 and a numeric
  text gives the phone. Extraction is a total function: a missing field never fails.
\<close>

theorem extraction_by_id:
  "((\<forall>a\<in>set (get_answers ld). get_id a \<noteq> 1) \<longrightarrow>
      lead_name (extract_lead_fields dig ld) = str ''Cliente n'' @ [0xE3] @ str ''o identificado'')
   \<and> ((\<forall>a\<in>set (get_answers ld). get_id a \<noteq> 2) \<longrightarrow>
      area (extract_lead_fields dig ld) = str ''N'' @ [0xE3] @ str ''o informada'')
   \<and> ((\<forall>a\<in>set (get_answers ld). get_id a \<noteq> 3) \<longrightarrow>
      situation (extract_lead_fields dig ld) = str ''N'' @ [0xE3] @ str ''o detalhada'')
   \<and> ((\<forall>a\<in>set (get_answers ld). \<not> (4 \<le> get_id a \<and> isdigit dig (get_text a))) \<longrightarrow>
      lead_phone (extract_lead_fields dig ld) = str ''N'' @ [0xE3] @ str ''o informado'')
   \<and> (filter (\<lambda>a. get_id a = 1) (get_answers ld) = [a1] \<longrightarrow>
      lead_name (extract_lead_fields dig ld) = get_text a1)
   \<and> (filter (\<lambda>a. get_id a = 2) (get_answers ld) = [a2] \<longrightarrow>
      area (extract_lead_fields dig ld) = get_text a2)
   \<and> (filter (\<lambda>a. get_id a = 3) (get_answers ld) = [a3] \<longrightarrow>
      situation (extract_lead_fields dig ld) = get_text a3)
   \<and> (filter (\<lambda>a. 4 \<le> get_id a \<and> isdigit dig (get_text a)) (get_answers ld) = [a4] \<longrightarrow>
      lead_phone (extract_lead_fields dig ld) = get_text a4)"
  unfolding extract_lead_fields_def parse_answers_name parse_answers_area
    parse_answers_situation parse_answers_phone
  by (simp add: filter_empty_conv placeholders_def)

theorem extraction_by_id_witness:
  "filter (\<lambda>a. get_id a = 1) example_answers = [example_answers ! 0]
   \<and> filter (\<lambda>a. get_id a = 2) example_answers = [example_answers ! 1]
   \<and> filter (\<lambda>a. get_id a = 3) example_answers = [example_answers ! 2]
   \<and> filter (\<lambda>a. 4 \<le> get_id a \<and> isdigit ascii_digit (get_text a)) example_answers
       = [example_answers ! 3]
   \<and> extract_lead_fields ascii_digit \<lparr>answers = Some example_answers\<rparr> =
       \<lparr>lead_name = str ''Ana'', lead_phone = str ''11999999999'',
        area = str ''Criminal'', situation = str ''Dispute''\<rparr>
   \<and> get_answers \<lparr>answers = Some []\<rparr> = []
   \<and> extract_lead_fields ascii_digit \<lparr>answers = Some []\<rparr> = placeholders"
proof -
  have m1: "filter (\<lambda>a. get_id a = 1) example_answers = [example_answers ! 0]"
    and m2: "filter (\<lambda>a. get_id a = 2) example_answers = [example_answers ! 1]"
    and m3: "filter (\<lambda>a. get_id a = 3) example_answers = [example_answers ! 2]"
    by (simp_all add: example_answers_def get_id_def)
  have m4: "filter (\<lambda>a. 4 \<le> get_id a \<and> isdigit ascii_digit (get_text a)) example_answers
       = [example_answers ! 3]"
    by (simp add: example_answers_def get_id_def get_text_def isdigit_def ascii_digit_def str_def)
  have texts: "get_text (example_answers ! 0) = str ''Ana''"
    "get_text (example_answers ! 1) = str ''Criminal''"
    "get_text (example_answers ! 2) = str ''Dispute''"
    "get_text (example_answers ! 3) = str ''11999999999''"
    by (simp_all add: example_answers_def get_text_def)
  have ga: "get_answers \<lparr>answers = Some example_answers\<rparr> = example_answers"
    "get_answers \<lparr>answers = Some []\<rparr> = []"
    by (simp_all add: get_answers_def)
  have full: "extract_lead_fields ascii_digit \<lparr>answers = Some example_answers\<rparr> =
       \<lparr>lead_name = str ''Ana'', lead_phone = str ''11999999999'',
        area = str ''Criminal'', situation = str ''Dispute''\<rparr>"
    using extraction_by_id [of "\<lparr>answers = Some example_answers\<rparr>" ascii_digit
        "example_answers ! 0" "example_answers ! 1" "example_answers ! 2" "example_answers ! 3"]
      m1 m2 m3 m4 texts
    by (simp add: ga)
  have none: "extract_lead_fields ascii_digit \<lparr>answers = Some []\<rparr> = placeholders"
    using extraction_by_id [of "\<lparr>answers = Some []\<rparr>" ascii_digit]
    by (simp add: ga placeholders_def)
  show ?thesis using m1 m2 m3 m4 full none by (simp add: ga)
qed

text \<open>
  C10. When several answers match the same rule, the last one in iteration order
  gives the field, whatever came before it.
\<close>

theorem last_match_wins:
  "get_answers ld = xs @ a # ys \<Longrightarrow>
   (get_id a = 1 \<and> (\<forall>y\<in>set ys. get_id y \<noteq> 1) \<longrightarrow>
      lead_name (extract_lead_fields dig ld) = get_text a)
   \<and> (get_id a = 2 \<and> (\<forall>y\<in>set ys. get_id y \<noteq> 2) \<longrightarrow>
      area (extract_lead_fields dig ld) = get_text a)
   \<and> (get_id a = 3 \<and> (\<forall>y\<in>set ys. get_id y \<noteq> 3) \<longrightarrow>
      situation (extract_lead_fields dig ld) = get_text a)
   \<and> (4 \<le> get_id a \<and> isdigit dig (get_text a)
        \<and> (\<forall>y\<in>set ys. \<not> (4 \<le> get_id y \<and> isdigit dig (get_text y))) \<longrightarrow>
      lead_phone (extract_lead_fields dig ld) = get_text a)"
proof -
  assume split: "get_answers ld = xs @ a # ys"
  have n: "lead_name (extract_lead_fields dig ld) = get_text a"
    if "get_id a = 1" "\<forall>y\<in>set ys. get_id y \<noteq> 1"
    unfolding extract_lead_fields_def parse_answers_name split
    using that by (intro last_filtered) 
  have ar: "area (extract_lead_fields dig ld) = get_text a"
    if "get_id a = 2" "\<forall>y\<in>set ys. get_id y \<noteq> 2"
    unfolding extract_lead_fields_def parse_answers_area split
    using that by (intro last_filtered)
  have si: "situation (extract_lead_fields dig ld) = get_text a"
    if "get_id a = 3" "\<forall>y\<in>set ys. get_id y \<noteq> 3"
    unfolding extract_lead_fields_def parse_answers_situation split
    using that by (intro last_filtered)
  have ph: "lead_phone (extract_lead_fields dig ld) = get_text a"
    if "4 \<le> get_id a \<and> isdigit dig (get_text a)"
      "\<forall>y\<in>set ys. \<not> (4 \<le> get_id y \<and> isdigit dig (get_text y))"
    unfolding extract_lead_fields_def parse_answers_phone split
    using that by (intro last_filtered)
  from n ar si ph show ?thesis by simp
qed

theorem last_match_wins_witness:
  "get_answers \<lparr>answers = Some duplicate_answers\<rparr>
     = take 2 duplicate_answers @ duplicate_answers ! 2 # drop 3 duplicate_answers
   \<and> get_id (duplicate_answers ! 2) = 1
   \<and> list_all (\<lambda>y. get_id y \<noteq> 1) (drop 3 duplicate_answers)
   \<and> lead_name (extract_lead_fields ascii_digit \<lparr>answers = Some duplicate_answers\<rparr>) = str ''Bia''
   \<and> get_answers \<lparr>answers = Some duplicate_answers\<rparr>
     = take 3 duplicate_answers @ duplicate_answers ! 3 # []
   \<and> 4 \<le> get_id (duplicate_answers ! 3)
   \<and> isdigit ascii_digit (get_text (duplicate_answers ! 3))
   \<and> lead_phone (extract_lead_fields ascii_digit \<lparr>answers = Some duplicate_answers\<rparr>) = str ''222''"
proof -
  have s1: "get_answers \<lparr>answers = Some duplicate_answers\<rparr>
     = take 2 duplicate_answers @ duplicate_answers ! 2 # drop 3 duplicate_answers"
    by (simp add: get_answers_def duplicate_answers_def)
  have s2: "get_answers \<lparr>answers = Some duplicate_answers\<rparr>
     = take 3 duplicate_answers @ duplicate_answers ! 3 # []"
    by (simp add: get_answers_def duplicate_answers_def)
  have h1: "get_id (duplicate_answers ! 2) = 1"
    "\<forall>y\<in>set (drop 3 duplicate_answers). get_id y \<noteq> 1"
    "get_text (duplicate_answers ! 2) = str ''Bia''"
    by (simp_all add: duplicate_answers_def get_id_def get_text_def)
  have h2: "4 \<le> get_id (duplicate_answers ! 3)"
    "isdigit ascii_digit (get_text (duplicate_answers ! 3))"
    "get_text (duplicate_answers ! 3) = str ''222''"
    by (simp_all add: duplicate_answers_def get_id_def get_text_def isdigit_def ascii_digit_def
        str_def)
  have n: "lead_name (extract_lead_fields ascii_digit \<lparr>answers = Some duplicate_answers\<rparr>) = str ''Bia''"
    using last_match_wins [OF s1, of ascii_digit] h1 by simp
  have p: "lead_phone (extract_lead_fields ascii_digit \<lparr>answers = Some duplicate_answers\<rparr>) = str ''222''"
    using last_match_wins [OF s2, of ascii_digit] h2 by simp
  show ?thesis using s1 s2 h1 h2 n p by (simp add: list_all_iff)
qed

section \<open>The paths through the dispatch\<close>

text \<open>The fan-out neither reads nor writes the store.\<close>

lemma lawyer_failed_frame:
  "leads (snd (lawyer_failed e l x w)) = leads w
   \<and> store_ops (snd (lawyer_failed e l x w)) = store_ops w
   \<and> sent (snd (lawyer_failed e l x w)) = sent w"
  by (simp add: lawyer_failed_def now_def add_log_def Let_def)

lemma lawyer_failed_uncaught:
  "fst (lawyer_failed e l x w) = Inl y \<Longrightarrow> \<not> caught y"
  by (simp add: lawyer_failed_def now_def Let_def split: if_splits)

lemma notify_lawyer_frame:
  "leads (snd (notify_lawyer e msg l w)) = leads w
   \<and> store_ops (snd (notify_lawyer e msg l w)) = store_ops w"
  by (simp add: notify_lawyer_def lawyer_failed_frame now_def add_log_def Let_def
      split: sum.splits)

lemma notify_lawyer_uncaught:
  "fst (notify_lawyer e msg l w) = Inl y \<Longrightarrow> \<not> caught y"
  by (auto simp: notify_lawyer_def now_def Let_def
      split: if_splits sum.splits dest: lawyer_failed_uncaught)

lemma notify_lawyers_frame:
  "leads (snd (notify_lawyers e msg ls results n w)) = leads w
   \<and> store_ops (snd (notify_lawyers e msg ls results n w)) = store_ops w"
proof (induction ls arbitrary: results n w)
  case Nil
  show ?case by simp
next
  case (Cons l ls)
  obtain out w' where step: "notify_lawyer e msg l w = (out, w')"
    by (cases "notify_lawyer e msg l w")
  have fr: "leads w' = leads w \<and> store_ops w' = store_ops w"
    using notify_lawyer_frame [of e msg l w] step by simp
  show ?case
  proof (cases out)
    case (Inl x)
    then show ?thesis using step fr by simp
  next
    case (Inr p)
    then show ?thesis using step fr Cons.IH by (cases p) simp
  qed
qed

lemma notify_lawyers_uncaught:
  "fst (notify_lawyers e msg ls results n w) = Inl y \<Longrightarrow> \<not> caught y"
proof (induction ls arbitrary: results n w)
  case Nil
  then show ?case by simp
next
  case (Cons l ls)
  obtain out w' where step: "notify_lawyer e msg l w = (out, w')"
    by (cases "notify_lawyer e msg l w")
  show ?case
  proof (cases out)
    case (Inl x)
    then show ?thesis
      using step Cons.prems notify_lawyer_uncaught [of e msg l w x] by simp
  next
    case (Inr p)
    then show ?thesis using step Cons by (cases p) simp
  qed
qed

lemma fanout_try_frame:
  "leads (snd (send_notifications_to_lawyers_try e lead_id f w)) = leads w
   \<and> store_ops (snd (send_notifications_to_lawyers_try e lead_id f w)) = store_ops w"
proof (cases "lawyers_config e")
  case (Inl x)
  then show ?thesis by (simp add: send_notifications_to_lawyers_try_def)
next
  case (Inr lawyers)
  let ?msg = "notification_message lead_id (lead_name f) (lead_phone f) (area f) (situation f)
                (strftime e (clock e (ticks w)))"
  let ?w0 = "w\<lparr>ticks := Suc (ticks w)\<rparr>"
  obtain out w1 where loop: "notify_lawyers e ?msg lawyers [] 0 ?w0 = (out, w1)"
    by (cases "notify_lawyers e ?msg lawyers [] 0 ?w0")
  have fr: "leads w1 = leads w \<and> store_ops w1 = store_ops w"
    using notify_lawyers_frame [of e ?msg lawyers "[]" 0 ?w0] loop by simp
  show ?thesis
  proof (cases out)
    case (Inl x)
    then show ?thesis
      using Inr loop fr by (simp add: send_notifications_to_lawyers_try_def now_def)
  next
    case r: (Inr p)
    then show ?thesis
      using Inr loop fr
      by (cases p) (simp add: send_notifications_to_lawyers_try_def now_def)
  qed
qed

lemma fanout_frame:
  "leads (snd (send_notifications_to_lawyers e lead_id f w)) = leads w
   \<and> store_ops (snd (send_notifications_to_lawyers e lead_id f w)) = store_ops w"
proof -
  obtain out w' where t: "send_notifications_to_lawyers_try e lead_id f w = (out, w')"
    by (cases "send_notifications_to_lawyers_try e lead_id f w")
  have "leads w' = leads w \<and> store_ops w' = store_ops w"
    using fanout_try_frame [of e lead_id f w] t by simp
  then show ?thesis
    using t by (cases out) (simp_all add: send_notifications_to_lawyers_def add_log_def)
qed

lemma fanout_uncaught:
  "fst (send_notifications_to_lawyers e lead_id f w) = Inl y \<Longrightarrow> \<not> caught y"
  by (cases "send_notifications_to_lawyers_try e lead_id f w")
     (auto simp: send_notifications_to_lawyers_def split: sum.splits if_splits)

lemma fanout_try_result:
  assumes "fst (send_notifications_to_lawyers_try e lead_id f w) = Inr r"
  shows "\<exists>n. map_of r ''notifications_sent'' = Some (PInt (int n))
     \<and> map_of r ''success'' = Some (PBool (0 < n))"
proof (cases "lawyers_config e")
  case (Inl x)
  then show ?thesis using assms by (simp add: send_notifications_to_lawyers_try_def)
next
  case (Inr lawyers)
  let ?msg = "notification_message lead_id (lead_name f) (lead_phone f) (area f) (situation f)
                (strftime e (clock e (ticks w)))"
  let ?w0 = "w\<lparr>ticks := Suc (ticks w)\<rparr>"
  obtain out w1 where loop: "notify_lawyers e ?msg lawyers [] 0 ?w0 = (out, w1)"
    by (cases "notify_lawyers e ?msg lawyers [] 0 ?w0")
  show ?thesis
  proof (cases out)
    case (Inl x)
    then show ?thesis
      using Inr loop assms by (simp add: send_notifications_to_lawyers_try_def now_def)
  next
    case r: (Inr p)
    then show ?thesis
      using Inr loop assms
      by (cases p) (auto simp: send_notifications_to_lawyers_try_def now_def)
  qed
qed

lemma fanout_result:
  assumes "fst (send_notifications_to_lawyers e lead_id f w) = Inr r"
  shows "\<exists>n. map_of r ''notifications_sent'' = Some (PInt (int n))
     \<and> map_of r ''success'' = Some (PBool (0 < n))"
proof -
  obtain out w' where t: "send_notifications_to_lawyers_try e lead_id f w = (out, w')"
    by (cases "send_notifications_to_lawyers_try e lead_id f w")
  show ?thesis
  proof (cases out)
    case (Inl x)
    then have "r = [(''success'', PBool False), (''notifications_sent'', PInt 0),
                    (''error'', PStr (exn_str x))]"
      using t assms by (simp add: send_notifications_to_lawyers_def split: if_splits)
    then show ?thesis by (intro exI [of _ 0]) simp
  next
    case (Inr r')
    then have "fst (send_notifications_to_lawyers_try e lead_id f w) = Inr r"
      using t assms by (simp add: send_notifications_to_lawyers_def)
    then show ?thesis by (rule fanout_try_result)
  qed
qed

lemma dispatch_disabled:
  "\<not> whatsapp_enabled e \<Longrightarrow>
   send_new_lead_notification e lead_id ld w =
     (Inr [(''success'', PBool False),
           (''reason'', PStr (str ''whatsapp_disabled'')),
           (''message'', PStr (str ''WhatsApp notifications are disabled via environment variable''))],
      add_log INFO (Notifications_disabled lead_id) w)"
  by (simp add: send_new_lead_notification_def send_new_lead_notification_try_def)

lemma dispatch_client_error:
  "whatsapp_enabled e \<Longrightarrow> client_error e = Some x \<Longrightarrow>
   send_new_lead_notification e lead_id ld w =
     (if caught x then
        (Inr [(''success'', PBool False),
              (''reason'', PStr (str ''error'')),
              (''message'', PStr (exn_str x)),
              (''notifications_sent'', PInt 0)],
         add_log ERROR (Dispatch_error (exn_str x)) (w\<lparr>store_ops := store_ops w @ [Get_client]\<rparr>))
      else (Inl x, w\<lparr>store_ops := store_ops w @ [Get_client]\<rparr>))"
  by (simp add: send_new_lead_notification_def send_new_lead_notification_try_def
      get_firestore_client_def)

lemma dispatch_get_error:
  "whatsapp_enabled e \<Longrightarrow> client_error e = None \<Longrightarrow> get_error e = Some x \<Longrightarrow>
   send_new_lead_notification e lead_id ld w =
     (if caught x then
        (Inr [(''success'', PBool False),
              (''reason'', PStr (str ''error'')),
              (''message'', PStr (exn_str x)),
              (''notifications_sent'', PInt 0)],
         add_log ERROR (Dispatch_error (exn_str x))
           (w\<lparr>store_ops := store_ops w @ [Get_client, Doc_get lead_id]\<rparr>))
      else (Inl x, w\<lparr>store_ops := store_ops w @ [Get_client, Doc_get lead_id]\<rparr>))"
  by (simp add: send_new_lead_notification_def send_new_lead_notification_try_def
      get_firestore_client_def doc_get_def)

lemma dispatch_not_found:
  "whatsapp_enabled e \<Longrightarrow> client_error e = None \<Longrightarrow> get_error e = None \<Longrightarrow>
   leads w lead_id = None \<Longrightarrow>
   send_new_lead_notification e lead_id ld w =
     (Inr [(''success'', PBool False),
           (''reason'', PStr (str ''lead_not_found'')),
           (''message'', PStr (str ''Lead '' @ lead_id @ str '' not found''))],
      add_log ERROR (Lead_not_found lead_id)
        (w\<lparr>store_ops := store_ops w @ [Get_client, Doc_get lead_id]\<rparr>))"
  by (simp add: send_new_lead_notification_def send_new_lead_notification_try_def
      get_firestore_client_def doc_get_def)

lemma dispatch_already_notified:
  "whatsapp_enabled e \<Longrightarrow> client_error e = None \<Longrightarrow> get_error e = None \<Longrightarrow>
   leads w lead_id = Some d \<Longrightarrow> truthy (doc_field d ''was_notified'' (PBool False)) \<Longrightarrow>
   send_new_lead_notification e lead_id ld w =
     (Inr [(''success'', PBool False),
           (''reason'', PStr (str ''already_notified'')),
           (''message'', PStr (str ''Lead '' @ lead_id @ str '' was already notified''))],
      add_log INFO (Already_notified lead_id)
        (w\<lparr>store_ops := store_ops w @ [Get_client, Doc_get lead_id]\<rparr>))"
  by (simp add: send_new_lead_notification_def send_new_lead_notification_try_def
      get_firestore_client_def doc_get_def)

lemma main_path_fanout_leads:
  "leads (snd (main_path_fanout e lead_id ld w)) = leads w"
  by (simp add: main_path_fanout_def fanout_frame before_fanout_def add_log_def)

lemma main_path_fanout_result:
  "fst (main_path_fanout e lead_id ld w) = Inr r \<Longrightarrow>
   \<exists>n. map_of r ''notifications_sent'' = Some (PInt (int n))
     \<and> map_of r ''success'' = Some (PBool (0 < n))"
  unfolding main_path_fanout_def by (rule fanout_result)

lemma main_path_fanout_uncaught:
  "fst (main_path_fanout e lead_id ld w) = Inl y \<Longrightarrow> \<not> caught y"
  unfolding main_path_fanout_def by (rule fanout_uncaught)

lemma dispatch_main_raise:
  assumes "whatsapp_enabled e" and "client_error e = None" and "get_error e = None"
    and "leads w lead_id = Some d"
    and "\<not> truthy (doc_field d ''was_notified'' (PBool False))"
    and fan: "main_path_fanout e lead_id ld w = (Inl y, w4)"
  shows "send_new_lead_notification e lead_id ld w = (Inl y, w4)"
proof -
  have fan': "send_notifications_to_lawyers e lead_id (extract_lead_fields (unicode_digit e) ld)
       (add_log INFO
         (Sending_notification (lead_name (extract_lead_fields (unicode_digit e) ld))
            (area (extract_lead_fields (unicode_digit e) ld)))
         (w\<lparr>store_ops := store_ops w @ [Get_client, Doc_get lead_id]\<rparr>)) = (Inl y, w4)"
    using fan by (simp add: main_path_fanout_def before_fanout_def)
  have nc: "\<not> caught y"
    using main_path_fanout_uncaught [of e lead_id ld w y] fan by simp
  show ?thesis
    using assms(1-5) fan' nc
    by (simp add: send_new_lead_notification_def send_new_lead_notification_try_def
        get_firestore_client_def doc_get_def Let_def)
qed

lemma dispatch_main:
  assumes "whatsapp_enabled e" and "client_error e = None" and "get_error e = None"
    and "leads w lead_id = Some d"
    and "\<not> truthy (doc_field d ''was_notified'' (PBool False))"
    and fan: "main_path_fanout e lead_id ld w = (Inr r, w4)"
    and sent_n: "map_of r ''notifications_sent'' = Some (PInt n)"
  shows "send_new_lead_notification e lead_id ld w =
     (if 0 < n then
        (case update_error e of
           Some x \<Rightarrow>
             if caught x then
               (Inr r,
                add_log ERROR (Update_error (exn_str x))
                  (w4\<lparr>ticks := Suc (Suc (ticks w4)),
                      store_ops := store_ops w4 @ [Doc_update lead_id
                        (commit_fields (clock e (ticks w4)) r (clock e (Suc (ticks w4))))]\<rparr>))
             else
               (Inl x,
                w4\<lparr>ticks := Suc (Suc (ticks w4)),
                    store_ops := store_ops w4 @ [Doc_update lead_id
                      (commit_fields (clock e (ticks w4)) r (clock e (Suc (ticks w4))))]\<rparr>)
         | None \<Rightarrow>
             (Inr r,
              add_log INFO (Marked_notified lead_id)
                (w4\<lparr>ticks := Suc (Suc (ticks w4)),
                    store_ops := store_ops w4 @ [Doc_update lead_id
                      (commit_fields (clock e (ticks w4)) r (clock e (Suc (ticks w4))))],
                    leads := (leads w)(lead_id \<mapsto> d ++ map_of
                      (commit_fields (clock e (ticks w4)) r (clock e (Suc (ticks w4)))))\<rparr>)))
      else (Inr r, w4))"
proof -
  have l4: "leads w4 = leads w"
    using main_path_fanout_leads [of e lead_id ld w] fan by simp
  have fan': "send_notifications_to_lawyers e lead_id (extract_lead_fields (unicode_digit e) ld)
       (add_log INFO
         (Sending_notification (lead_name (extract_lead_fields (unicode_digit e) ld))
            (area (extract_lead_fields (unicode_digit e) ld)))
         (w\<lparr>store_ops := store_ops w @ [Get_client, Doc_get lead_id]\<rparr>)) = (Inr r, w4)"
    using fan by (simp add: main_path_fanout_def before_fanout_def)
  have gz: "gt_zero (dict_get r ''notifications_sent'' (PInt 0)) = Inr (0 < n)"
    using sent_n by (simp add: dict_get_def)
  show ?thesis
  proof (cases "0 < n")
    case False
    then show ?thesis
      using assms(1-5) fan' gz
      by (simp add: send_new_lead_notification_def send_new_lead_notification_try_def
          get_firestore_client_def doc_get_def Let_def)
  next
    case True
    then show ?thesis
      using assms(1-5) fan' gz l4
      by (cases "update_error e")
         (simp_all add: send_new_lead_notification_def send_new_lead_notification_try_def
          get_firestore_client_def doc_get_def doc_update_def now_def Let_def add_log_def)
  qed
qed

lemma notify_lawyer_sent:
  "\<exists>new. sent (snd (notify_lawyer e msg l w)) = sent w @ new \<and> list_all (\<lambda>m. snd m = msg) new"
proof (cases "case lawyer_phone l of None \<Rightarrow> [] | Some p \<Rightarrow> p")
  case Nil
  then show ?thesis by (simp add: notify_lawyer_def add_log_def)
next
  case (Cons c cs)
  show ?thesis
  proof (cases "format_phone e (c # cs)")
    case (Inl x)
    then show ?thesis
      using Cons by (simp add: notify_lawyer_def lawyer_failed_frame)
  next
    case (Inr number)
    then have "sent (snd (notify_lawyer e msg l w)) = sent w @ [(number, msg)]"
      using Cons
      by (simp add: notify_lawyer_def lawyer_failed_frame now_def add_log_def Let_def
          split: sum.splits)
    then show ?thesis by simp
  qed
qed

lemma notify_lawyers_sent:
  "\<exists>new. sent (snd (notify_lawyers e msg ls results n w)) = sent w @ new
     \<and> list_all (\<lambda>m. snd m = msg) new"
proof (induction ls arbitrary: results n w)
  case Nil
  show ?case by simp
next
  case (Cons l ls)
  obtain out w' where step: "notify_lawyer e msg l w = (out, w')"
    by (cases "notify_lawyer e msg l w")
  obtain new1 where n1: "sent w' = sent w @ new1" "list_all (\<lambda>m. snd m = msg) new1"
    using notify_lawyer_sent [of e msg l w] step by auto
  show ?case
  proof (cases out)
    case (Inl x)
    then show ?thesis using step n1 by simp
  next
    case (Inr p)
    obtain r ok where p: "p = (r, ok)" by (cases p)
    obtain new2 where n2:
      "sent (snd (notify_lawyers e msg ls
                    (case r of None \<Rightarrow> results | Some y \<Rightarrow> results @ [y])
                    (if ok then Suc n else n) w')) = sent w' @ new2"
      "list_all (\<lambda>m. snd m = msg) new2"
      using Cons.IH by blast
    have "sent (snd (notify_lawyers e msg (l # ls) results n w)) = sent w @ (new1 @ new2)"
      using step Inr p n1 n2 by simp
    moreover have "list_all (\<lambda>m. snd m = msg) (new1 @ new2)"
      using n1 n2 by simp
    ultimately show ?thesis by blast
  qed
qed

lemma fanout_sends_Cons:
  "fanout_sends e msg (l # ls) = fanout_sends e msg [l] @ fanout_sends e msg ls"
  by (simp add: fanout_sends_def)

lemma notify_lawyer_exact:
  assumes "only_exceptions e"
  shows "\<exists>out. fst (notify_lawyer e msg l w) = Inr out"
    and "sent (snd (notify_lawyer e msg l w)) = sent w @ fanout_sends e msg [l]"
proof -
  have fp: "\<And>p x. format_phone e p = Inl x \<Longrightarrow> caught x"
    using assms by (auto simp: only_exceptions_def split: sum.splits)
  have so: "\<And>k number text x. send_outcome e k number text = Inl x \<Longrightarrow> caught x"
    using assms by (auto simp: only_exceptions_def split: sum.splits)
  show "\<exists>out. fst (notify_lawyer e msg l w) = Inr out"
    by (auto simp: notify_lawyer_def lawyer_failed_def now_def Let_def
        split: sum.splits dest: fp so)
  show "sent (snd (notify_lawyer e msg l w)) = sent w @ fanout_sends e msg [l]"
    by (cases "lawyer_phone l")
       (auto simp: notify_lawyer_def lawyer_failed_frame fanout_sends_def now_def add_log_def
          Let_def split: sum.splits)
qed

lemma notify_lawyers_exact:
  assumes "only_exceptions e"
  shows "(\<exists>out. fst (notify_lawyers e msg ls results n w) = Inr out)
     \<and> sent (snd (notify_lawyers e msg ls results n w)) = sent w @ fanout_sends e msg ls"
proof (induction ls arbitrary: results n w)
  case Nil
  show ?case by (simp add: fanout_sends_def)
next
  case (Cons l ls)
  obtain p w' where step: "notify_lawyer e msg l w = (Inr p, w')"
    using notify_lawyer_exact(1) [OF assms, of msg l w]
    by (cases "notify_lawyer e msg l w") auto
  have s1: "sent w' = sent w @ fanout_sends e msg [l]"
    using notify_lawyer_exact(2) [OF assms, of msg l w] step by simp
  obtain r ok where p: "p = (r, ok)" by (cases p)
  show ?case
    using step p s1 Cons.IH [of "case r of None \<Rightarrow> results | Some y \<Rightarrow> results @ [y]"
        "if ok then Suc n else n" w']
    by (simp add: fanout_sends_Cons [of e msg l ls])
qed

lemma fanout_try_sent:
  "\<exists>new. sent (snd (send_notifications_to_lawyers_try e lead_id f w)) = sent w @ new
     \<and> list_all (\<lambda>m. snd m = notification_message lead_id (lead_name f) (lead_phone f)
                              (area f) (situation f) (strftime e (clock e (ticks w)))) new"
proof (cases "lawyers_config e")
  case (Inl x)
  then show ?thesis by (simp add: send_notifications_to_lawyers_try_def)
next
  case (Inr lawyers)
  let ?msg = "notification_message lead_id (lead_name f) (lead_phone f) (area f) (situation f)
                (strftime e (clock e (ticks w)))"
  let ?w0 = "w\<lparr>ticks := Suc (ticks w)\<rparr>"
  obtain out w1 where loop: "notify_lawyers e ?msg lawyers [] 0 ?w0 = (out, w1)"
    by (cases "notify_lawyers e ?msg lawyers [] 0 ?w0")
  obtain new where n: "sent w1 = sent w @ new" "list_all (\<lambda>m. snd m = ?msg) new"
    using notify_lawyers_sent [of e ?msg lawyers "[]" 0 ?w0] loop by auto
  have "sent (snd (send_notifications_to_lawyers_try e lead_id f w)) = sent w1"
  proof (cases out)
    case (Inl x)
    then show ?thesis
      using Inr loop by (simp add: send_notifications_to_lawyers_try_def now_def)
  next
    case r: (Inr p)
    then show ?thesis
      using Inr loop by (cases p) (simp add: send_notifications_to_lawyers_try_def now_def)
  qed
  then show ?thesis using n by auto
qed

lemma fanout_sent_try:
  "sent (snd (send_notifications_to_lawyers e lead_id f w))
     = sent (snd (send_notifications_to_lawyers_try e lead_id f w))"
  by (cases "send_notifications_to_lawyers_try e lead_id f w")
     (auto simp: send_notifications_to_lawyers_def add_log_def split: sum.splits)

lemma fanout_sent:
  "\<exists>new. sent (snd (send_notifications_to_lawyers e lead_id f w)) = sent w @ new
     \<and> list_all (\<lambda>m. snd m = notification_message lead_id (lead_name f) (lead_phone f)
                              (area f) (situation f) (strftime e (clock e (ticks w)))) new"
  unfolding fanout_sent_try by (rule fanout_try_sent)

lemma fanout_exact:
  assumes cfg: "lawyers_config e = Inr lawyers" and oe: "only_exceptions e"
  shows "(\<exists>r. fst (send_notifications_to_lawyers e lead_id f w) = Inr r)
     \<and> sent (snd (send_notifications_to_lawyers e lead_id f w)) =
         sent w @ fanout_sends e
           (notification_message lead_id (lead_name f) (lead_phone f) (area f) (situation f)
              (strftime e (clock e (ticks w)))) lawyers"
proof -
  let ?msg = "notification_message lead_id (lead_name f) (lead_phone f) (area f) (situation f)
                (strftime e (clock e (ticks w)))"
  let ?w0 = "w\<lparr>ticks := Suc (ticks w)\<rparr>"
  obtain p w1 where loop: "notify_lawyers e ?msg lawyers [] 0 ?w0 = (Inr p, w1)"
    using notify_lawyers_exact [OF oe, of ?msg lawyers "[]" 0 ?w0]
    by (cases "notify_lawyers e ?msg lawyers [] 0 ?w0") auto
  have s1: "sent w1 = sent w @ fanout_sends e ?msg lawyers"
    using notify_lawyers_exact [OF oe, of ?msg lawyers "[]" 0 ?w0] loop by simp
  show ?thesis
    using cfg loop s1
    by (cases p)
       (simp add: send_notifications_to_lawyers_def send_notifications_to_lawyers_try_def
          now_def)
qed

lemma before_fanout_frame:
  "sent (before_fanout e lead_id ld w) = sent w"
  "ticks (before_fanout e lead_id ld w) = ticks w"
  by (simp_all add: before_fanout_def add_log_def)

lemma dispatch_sent_main:
  assumes g: "whatsapp_enabled e" "client_error e = None" "get_error e = None"
    "leads w lead_id = Some d" "\<not> truthy (doc_field d ''was_notified'' (PBool False))"
  shows "sent (snd (send_new_lead_notification e lead_id ld w))
           = sent (snd (main_path_fanout e lead_id ld w))"
proof -
  obtain out w4 where fan: "main_path_fanout e lead_id ld w = (out, w4)"
    by (cases "main_path_fanout e lead_id ld w")
  show ?thesis
  proof (cases out)
    case (Inl y)
    then show ?thesis
      using dispatch_main_raise [OF g, of ld y w4] fan by simp
  next
    case (Inr r)
    obtain n where n: "map_of r ''notifications_sent'' = Some (PInt (int n))"
      using main_path_fanout_result [of e lead_id ld w r] fan Inr by auto
    show ?thesis
      using dispatch_main [OF g, of ld r w4 "int n"] fan Inr n
      by (cases "update_error e") (simp_all add: add_log_def)
  qed
qed

lemma dispatch_sent:
  "\<exists>new. sent (snd (send_new_lead_notification e lead_id ld w)) = sent w @ new
     \<and> list_all (\<lambda>m. snd m = dispatch_message e lead_id ld w) new"
proof -
  have early: "sent (snd (send_new_lead_notification e lead_id ld w)) = sent w \<Longrightarrow> ?thesis"
    by simp
  show ?thesis
  proof (cases "whatsapp_enabled e")
    case False
    then show ?thesis by (intro early) (simp add: dispatch_disabled add_log_def)
  next
    case en: True
    show ?thesis
    proof (cases "client_error e")
      case (Some x)
      then show ?thesis using en by (intro early) (simp add: dispatch_client_error add_log_def)
    next
      case ce: None
      show ?thesis
      proof (cases "get_error e")
        case (Some x)
        then show ?thesis
          using en ce by (intro early) (simp add: dispatch_get_error add_log_def)
      next
        case ge: None
        show ?thesis
        proof (cases "leads w lead_id")
          case None
          then show ?thesis
            using en ce ge by (intro early) (simp add: dispatch_not_found add_log_def)
        next
          case (Some d)
          show ?thesis
          proof (cases "truthy (doc_field d ''was_notified'' (PBool False))")
            case True
            then show ?thesis
              using en ce ge Some
              by (intro early) (simp add: dispatch_already_notified add_log_def)
          next
            case False
            show ?thesis
              unfolding dispatch_sent_main [OF en ce ge Some False]
              using fanout_sent [of e lead_id "extract_lead_fields (unicode_digit e) ld"
                  "before_fanout e lead_id ld w"]
              by (simp add: main_path_fanout_def dispatch_message_def before_fanout_frame)
          qed
        qed
      qed
    qed
  qed
qed

lemma dispatch_sent_exact:
  assumes g: "whatsapp_enabled e" "client_error e = None" "get_error e = None"
    "leads w lead_id = Some d" "\<not> truthy (doc_field d ''was_notified'' (PBool False))"
    and cfg: "lawyers_config e = Inr lawyers" and oe: "only_exceptions e"
  shows "sent (snd (send_new_lead_notification e lead_id ld w))
           = sent w @ fanout_sends e (dispatch_message e lead_id ld w) lawyers"
  unfolding dispatch_sent_main [OF g]
  using fanout_exact [OF cfg oe, of lead_id "extract_lead_fields (unicode_digit e) ld"
      "before_fanout e lead_id ld w"]
  by (simp add: main_path_fanout_def dispatch_message_def before_fanout_frame)

section \<open>The gates of the dispatch\<close>

lemma example_enabled: "whatsapp_enabled example_env"
  by (simp add: whatsapp_enabled_def example_env_def lower_def str_def)

lemma disabled_env_off: "\<not> whatsapp_enabled disabled_env"
  by (simp add: disabled_env_def whatsapp_enabled_def example_env_def lower_def str_def)

text \<open>
  C3. With the feature flag off, the dispatch returns success false with the reason
  \<open>whatsapp_disabled\<close> (and a message) whatever the lead is, and makes no call to the
  store: nothing is read, nothing written, nothing sent.
\<close>

theorem disabled_gate:
  "\<not> whatsapp_enabled e \<Longrightarrow>
   fst (send_new_lead_notification e lead_id ld w) =
     Inr [(''success'', PBool False),
          (''reason'', PStr (str ''whatsapp_disabled'')),
          (''message'', PStr (str ''WhatsApp notifications are disabled via environment variable''))]
   \<and> store_ops (snd (send_new_lead_notification e lead_id ld w)) = store_ops w
   \<and> leads (snd (send_new_lead_notification e lead_id ld w)) = leads w
   \<and> sent (snd (send_new_lead_notification e lead_id ld w)) = sent w"
  by (simp add: dispatch_disabled add_log_def)

theorem disabled_gate_witness:
  "\<not> whatsapp_enabled disabled_env
   \<and> result_field (send_new_lead_notification disabled_env (str ''L2'')
        \<lparr>answers = Some example_answers\<rparr> example_world) ''reason''
       = Some (PStr (str ''whatsapp_disabled''))
   \<and> store_ops (snd (send_new_lead_notification disabled_env (str ''L2'')
        \<lparr>answers = Some example_answers\<rparr> example_world)) = []"
  using disabled_gate [OF disabled_env_off, of "str ''L2''" "\<lparr>answers = Some example_answers\<rparr>"
      example_world] disabled_env_off
  by (simp add: result_field_def example_world_def)

text \<open>The reason returned is not the string \<open>disabled\<close>.\<close>

theorem disabled_reason_counterexample:
  "\<not> whatsapp_enabled disabled_env
   \<and> result_field (send_new_lead_notification disabled_env (str ''L1'')
        \<lparr>answers = Some example_answers\<rparr> example_world) ''reason''
       \<noteq> Some (PStr (str ''disabled''))"
  using disabled_env_off
  by (simp add: dispatch_disabled result_field_def str_def)

text \<open>
  C1. For a lead stored with \<open>was_notified = True\<close>, the dispatch sends nothing and
  leaves the collection as it was; when the feature flag is on and the store answers,
  it returns success false with the reason \<open>already_notified\<close>.
\<close>

theorem already_notified_guard:
  assumes "stored_field w lead_id ''was_notified'' = Some (PBool True)"
  shows "sent (snd (send_new_lead_notification e lead_id ld w)) = sent w
   \<and> leads (snd (send_new_lead_notification e lead_id ld w)) = leads w
   \<and> (whatsapp_enabled e \<and> client_error e = None \<and> get_error e = None \<longrightarrow>
        fst (send_new_lead_notification e lead_id ld w) =
          Inr [(''success'', PBool False),
               (''reason'', PStr (str ''already_notified'')),
               (''message'', PStr (str ''Lead '' @ lead_id @ str '' was already notified''))])"
proof -
  obtain d where d: "leads w lead_id = Some d" and n: "d ''was_notified'' = Some (PBool True)"
    using assms by (auto simp: stored_field_def split: option.splits)
  have t: "truthy (doc_field d ''was_notified'' (PBool False))"
    using n by (simp add: doc_field_def)
  show ?thesis
  proof (cases "whatsapp_enabled e")
    case False
    then show ?thesis by (simp add: dispatch_disabled add_log_def)
  next
    case en: True
    show ?thesis
    proof (cases "client_error e")
      case (Some x)
      then show ?thesis using en by (cases "caught x") (simp_all add: dispatch_client_error add_log_def)
    next
      case ce: None
      show ?thesis
      proof (cases "get_error e")
        case (Some x)
        then show ?thesis
          using en ce by (cases "caught x") (simp_all add: dispatch_get_error add_log_def)
      next
        case None
        then show ?thesis
          using en ce d t by (simp add: dispatch_already_notified add_log_def)
      qed
    qed
  qed
qed

theorem already_notified_guard_witness:
  "stored_field example_world (str ''L2'') ''was_notified'' = Some (PBool True)
   \<and> whatsapp_enabled example_env \<and> client_error example_env = None
   \<and> get_error example_env = None
   \<and> result_field (send_new_lead_notification example_env (str ''L2'')
        \<lparr>answers = Some example_answers\<rparr> example_world) ''reason''
       = Some (PStr (str ''already_notified''))
   \<and> sent (snd (send_new_lead_notification example_env (str ''L2'')
        \<lparr>answers = Some example_answers\<rparr> example_world)) = []"
proof -
  have h: "stored_field example_world (str ''L2'') ''was_notified'' = Some (PBool True)"
    by (simp add: stored_field_def example_world_def str_def)
  have g: "client_error example_env = None" "get_error example_env = None"
    by (simp_all add: example_env_def)
  show ?thesis
    using already_notified_guard [OF h, of example_env "\<lparr>answers = Some example_answers\<rparr>"]
      h g example_enabled
    by (simp add: result_field_def example_world_def)
qed

text \<open>
  C4. For a lead id with no document, the dispatch sends nothing; when the feature flag
  is on and the store answers, it returns success false with the reason
  \<open>lead_not_found\<close>.
\<close>

theorem missing_lead:
  assumes "leads w lead_id = None"
  shows "sent (snd (send_new_lead_notification e lead_id ld w)) = sent w
   \<and> leads (snd (send_new_lead_notification e lead_id ld w)) = leads w
   \<and> (whatsapp_enabled e \<and> client_error e = None \<and> get_error e = None \<longrightarrow>
        fst (send_new_lead_notification e lead_id ld w) =
          Inr [(''success'', PBool False),
               (''reason'', PStr (str ''lead_not_found'')),
               (''message'', PStr (str ''Lead '' @ lead_id @ str '' not found''))])"
proof (cases "whatsapp_enabled e")
  case False
  then show ?thesis by (simp add: dispatch_disabled add_log_def)
next
  case en: True
  show ?thesis
  proof (cases "client_error e")
    case (Some x)
    then show ?thesis using en by (cases "caught x") (simp_all add: dispatch_client_error add_log_def)
  next
    case ce: None
    show ?thesis
    proof (cases "get_error e")
      case (Some x)
      then show ?thesis
        using en ce by (cases "caught x") (simp_all add: dispatch_get_error add_log_def)
    next
      case None
      then show ?thesis
        using en ce assms by (simp add: dispatch_not_found add_log_def)
    qed
  qed
qed

theorem missing_lead_witness:
  "leads example_world (str ''L9'') = None
   \<and> whatsapp_enabled example_env \<and> client_error example_env = None
   \<and> get_error example_env = None
   \<and> result_field (send_new_lead_notification example_env (str ''L9'')
        \<lparr>answers = Some example_answers\<rparr> example_world) ''reason''
       = Some (PStr (str ''lead_not_found''))
   \<and> sent (snd (send_new_lead_notification example_env (str ''L9'')
        \<lparr>answers = Some example_answers\<rparr> example_world)) = []"
proof -
  have h: "leads example_world (str ''L9'') = None"
    by (simp add: example_world_def str_def)
  have g: "client_error example_env = None" "get_error example_env = None"
    by (simp_all add: example_env_def)
  show ?thesis
    using missing_lead [OF h, of example_env "\<lparr>answers = Some example_answers\<rparr>"]
      h g example_enabled
    by (simp add: result_field_def example_world_def)
qed

text \<open>The reason returned is not the string \<open>not_found\<close>.\<close>

theorem missing_lead_counterexample:
  "leads example_world (str ''L9'') = None
   \<and> whatsapp_enabled example_env \<and> client_error example_env = None
   \<and> get_error example_env = None
   \<and> result_field (send_new_lead_notification example_env (str ''L9'')
        \<lparr>answers = Some example_answers\<rparr> example_world) ''reason''
       \<noteq> Some (PStr (str ''not_found''))"
proof -
  have h: "leads example_world (str ''L9'') = None"
    by (simp add: example_world_def str_def)
  have g: "client_error example_env = None" "get_error example_env = None"
    by (simp_all add: example_env_def)
  show ?thesis
    using h g example_enabled
    by (simp add: dispatch_not_found result_field_def str_def)
qed

section \<open>Results of the dispatch\<close>






lemma dispatch_main_result:
  assumes g: "whatsapp_enabled e" "client_error e = None" "get_error e = None"
    "leads w lead_id = Some d" "\<not> truthy (doc_field d ''was_notified'' (PBool False))"
    and fan: "fst (main_path_fanout e lead_id ld w) = Inr r"
    and upd: "case update_error e of None \<Rightarrow> True | Some x \<Rightarrow> caught x"
  shows "fst (send_new_lead_notification e lead_id ld w) = Inr r"
proof -
  obtain w4 where f: "main_path_fanout e lead_id ld w = (Inr r, w4)"
    using fan by (cases "main_path_fanout e lead_id ld w") simp
  obtain n where n: "map_of r ''notifications_sent'' = Some (PInt (int n))"
    using main_path_fanout_result [OF fan] by auto
  show ?thesis
    using dispatch_main [OF g f n] upd by (cases "update_error e") simp_all
qed

lemma example_gates:
  "client_error example_env = None" "get_error example_env = None"
  "update_error example_env = None"
  "leads example_world (str ''L1'') = Some [''status'' \<mapsto> PStr (str ''new'')]"
  "\<not> truthy (doc_field [''status'' \<mapsto> PStr (str ''new'')] ''was_notified'' (PBool False))"
  by (simp_all add: example_env_def example_world_def doc_field_def str_def)

lemma example_lawyers:
  "lawyers_config example_env =
     Inr [\<lparr>lawyer_name = Some (str ''Rita''), lawyer_phone = Some (str ''5511911111111'')\<rparr>,
          \<lparr>lawyer_name = Some (str ''Joao''), lawyer_phone = Some (str ''5511922222222'')\<rparr>]"
  by (simp add: example_env_def)

lemma example_only: "only_exceptions example_env"
  by (simp add: only_exceptions_def example_env_def)

lemma example_fanout:
  "fst (main_path_fanout example_env (str ''L1'') example_lead example_world)
     = Inr example_result"
  by (simp add: main_path_fanout_def before_fanout_def send_notifications_to_lawyers_def
      send_notifications_to_lawyers_try_def notify_lawyer_def now_def add_log_def Let_def
      example_env_def example_world_def str_def example_lead_def example_result_def)

lemma example_dispatch:
  "fst (send_new_lead_notification example_env (str ''L1'') example_lead example_world)
     = Inr example_result"
  using dispatch_main_result [OF example_enabled example_gates(1,2,4,5) example_fanout]
    example_gates(3)
  by simp

lemma failing_update_gates:
  "whatsapp_enabled failing_update_env"
  "client_error failing_update_env = None" "get_error failing_update_env = None"
  "update_error failing_update_env = Some (Exn (str ''unavailable''))"
  by (simp_all add: failing_update_env_def example_env_def whatsapp_enabled_def lower_def str_def)

lemma failing_update_fanout:
  "fst (main_path_fanout failing_update_env (str ''L1'') example_lead example_world)
     = Inr example_result"
  by (simp add: main_path_fanout_def before_fanout_def send_notifications_to_lawyers_def
      send_notifications_to_lawyers_try_def notify_lawyer_def now_def add_log_def Let_def
      example_env_def example_world_def str_def failing_update_env_def example_lead_def
      example_result_def)

lemma failing_update_dispatch:
  "fst (send_new_lead_notification failing_update_env (str ''L1'') example_lead example_world)
     = Inr example_result"
  using dispatch_main_result [OF failing_update_gates(1,2,3) example_gates(4,5)
      failing_update_fanout] failing_update_gates(4)
  by simp

lemma failing_config_gates:
  "whatsapp_enabled failing_config_env"
  "client_error failing_config_env = None" "get_error failing_config_env = None"
  "update_error failing_config_env = None"
  "lawyers_config failing_config_env = Inl (Exn (str ''no config''))"
  by (simp_all add: failing_config_env_def example_env_def whatsapp_enabled_def lower_def str_def)






text \<open>
  C2. A dispatch that reports at least one notification sent went through the fan-out
  for a stored lead, and returns the aggregate result of the fan-out, with \<open>success\<close>
  true. When the update of the store succeeds, the stored lead has \<open>was_notified\<close> true,
  \<open>notified_at\<close> the clock reading taken for it, \<open>notification_result\<close> that aggregate
  (and \<open>updated_at\<close>), its other fields kept. When the update raises, the store is
  unchanged, the error is the last entry of the log, and the result is the same.
\<close>

theorem commit_after_success:
  assumes run: "send_new_lead_notification e lead_id ld w = (Inr r, w')"
    and sent_n: "map_of r ''notifications_sent'' = Some (PInt n)"
    and pos: "0 < n"
  shows "\<exists>d. leads w lead_id = Some d
     \<and> fst (main_path_fanout e lead_id ld w) = Inr r
     \<and> map_of r ''success'' = Some (PBool True)
     \<and> (case update_error e of
           None \<Rightarrow>
             leads w' = (leads w)(lead_id \<mapsto> d ++ map_of
                [(''was_notified'', PBool True),
                 (''notified_at'', PTime (clock e (ticks w' - 2))),
                 (''notification_result'', PDict r),
                 (''updated_at'', PTime (clock e (ticks w' - 1)))])
             \<and> log w' = log (snd (main_path_fanout e lead_id ld w))
                          @ [(INFO, Marked_notified lead_id)]
         | Some x \<Rightarrow>
             leads w' = leads w
             \<and> log w' = log (snd (main_path_fanout e lead_id ld w))
                          @ [(ERROR, Update_error (exn_str x))])"
proof -
  have en: "whatsapp_enabled e"
    using run sent_n by (cases "whatsapp_enabled e") (auto simp: dispatch_disabled)
  have ce: "client_error e = None"
    using run sent_n pos en
    by (cases "client_error e") (auto simp: dispatch_client_error split: if_splits)
  have ge: "get_error e = None"
    using run sent_n pos en ce
    by (cases "get_error e") (auto simp: dispatch_get_error split: if_splits)
  obtain d where d: "leads w lead_id = Some d"
    using run sent_n en ce ge by (cases "leads w lead_id") (auto simp: dispatch_not_found)
  have nt: "\<not> truthy (doc_field d ''was_notified'' (PBool False))"
    using run sent_n en ce ge d
    by (cases "truthy (doc_field d ''was_notified'' (PBool False))")
       (auto simp: dispatch_already_notified)
  obtain out w4 where fan0: "main_path_fanout e lead_id ld w = (out, w4)"
    by (cases "main_path_fanout e lead_id ld w")
  obtain r4 where out: "out = Inr r4"
    using dispatch_main_raise [OF en ce ge d nt, of ld _ w4] fan0 run by (cases out) auto
  have fan: "main_path_fanout e lead_id ld w = (Inr r4, w4)"
    using fan0 out by simp
  obtain m where m: "map_of r4 ''notifications_sent'' = Some (PInt (int m))"
    and s: "map_of r4 ''success'' = Some (PBool (0 < m))"
    using main_path_fanout_result [of e lead_id ld w r4] fan by auto
  note main = dispatch_main [OF en ce ge d nt fan m]
  have rr: "r = r4"
    using main run by (auto split: if_splits option.splits)
  have mn: "0 < m"
    using m sent_n pos rr by simp
  show ?thesis
  proof (cases "update_error e")
    case None
    then have "w' = add_log INFO (Marked_notified lead_id)
               (w4\<lparr>ticks := Suc (Suc (ticks w4)),
                   store_ops := store_ops w4 @ [Doc_update lead_id
                      (commit_fields (clock e (ticks w4)) r4 (clock e (Suc (ticks w4))))],
                   leads := (leads w)(lead_id \<mapsto> d ++ map_of
                      (commit_fields (clock e (ticks w4)) r4 (clock e (Suc (ticks w4)))))\<rparr>)"
      using main run mn by simp
    then show ?thesis
      using None d rr s mn fan by (simp add: add_log_def commit_fields_def)
  next
    case (Some x)
    then have cx: "caught x"
      using main run mn by (auto split: if_splits)
    then have "w' = add_log ERROR (Update_error (exn_str x))
               (w4\<lparr>ticks := Suc (Suc (ticks w4)),
                   store_ops := store_ops w4 @ [Doc_update lead_id
                      (commit_fields (clock e (ticks w4)) r4 (clock e (Suc (ticks w4))))]\<rparr>)"
      using main run mn Some by simp
    moreover have "leads w4 = leads w"
      using main_path_fanout_leads [of e lead_id ld w] fan by simp
    ultimately show ?thesis
      using Some d rr s mn fan by (simp add: add_log_def)
  qed
qed

theorem commit_after_success_witness:
  "send_new_lead_notification example_env (str ''L1'') example_lead example_world
     = (Inr example_result,
        snd (send_new_lead_notification example_env (str ''L1'') example_lead example_world))
   \<and> map_of example_result ''notifications_sent'' = Some (PInt 1)
   \<and> (0::int) < 1
   \<and> update_error example_env = None
   \<and> stored_field
        (snd (send_new_lead_notification example_env (str ''L1'') example_lead example_world))
        (str ''L1'') ''was_notified'' = Some (PBool True)
   \<and> stored_field
        (snd (send_new_lead_notification example_env (str ''L1'') example_lead example_world))
        (str ''L1'') ''notification_result'' = Some (PDict example_result)
   \<and> stored_field
        (snd (send_new_lead_notification example_env (str ''L1'') example_lead example_world))
        (str ''L1'') ''status'' = Some (PStr (str ''new''))
   \<and> send_new_lead_notification failing_update_env (str ''L1'') example_lead example_world
     = (Inr example_result,
        snd (send_new_lead_notification failing_update_env (str ''L1'') example_lead example_world))
   \<and> update_error failing_update_env = Some (Exn (str ''unavailable''))
   \<and> stored_field
        (snd (send_new_lead_notification failing_update_env (str ''L1'') example_lead
                example_world))
        (str ''L1'') ''was_notified'' = None
   \<and> last (log (snd (send_new_lead_notification failing_update_env (str ''L1'') example_lead
                example_world)))
       = (ERROR, Update_error (str ''unavailable''))"
proof -
  let ?X = "send_new_lead_notification example_env (str ''L1'') example_lead example_world"
  let ?Y = "send_new_lead_notification failing_update_env (str ''L1'') example_lead example_world"
  have x: "?X = (Inr example_result, snd ?X)"
    using example_dispatch by (cases ?X) simp
  have y: "?Y = (Inr example_result, snd ?Y)"
    using failing_update_dispatch by (cases ?Y) simp
  have n: "map_of example_result ''notifications_sent'' = Some (PInt 1)"
    by (simp add: example_result_def)
  have p: "(0::int) < 1" by simp
  have a: "stored_field (snd ?X) (str ''L1'') ''was_notified'' = Some (PBool True)
        \<and> stored_field (snd ?X) (str ''L1'') ''notification_result'' = Some (PDict example_result)
        \<and> stored_field (snd ?X) (str ''L1'') ''status'' = Some (PStr (str ''new''))"
    using commit_after_success [OF x n p] example_gates(3,4)
    by (auto simp: stored_field_def map_add_def)
  have b: "stored_field (snd ?Y) (str ''L1'') ''was_notified'' = None
        \<and> last (log (snd ?Y)) = (ERROR, Update_error (str ''unavailable''))"
    using commit_after_success [OF y n p] failing_update_gates(4) example_gates(4)
    by (auto simp: stored_field_def)
  show ?thesis
    using x y n a b example_gates(3) failing_update_gates(4) by simp
qed

lemma positive_count_success:
  assumes run: "send_new_lead_notification e lead_id ld w = (Inr r, w')"
    and sent_n: "map_of r ''notifications_sent'' = Some (PInt n)"
    and pos: "0 < n"
  shows "map_of r ''success'' = Some (PBool True)"
proof -
  have en: "whatsapp_enabled e"
    using run sent_n by (cases "whatsapp_enabled e") (auto simp: dispatch_disabled)
  have ce: "client_error e = None"
    using run sent_n pos en
    by (cases "client_error e") (auto simp: dispatch_client_error split: if_splits)
  have ge: "get_error e = None"
    using run sent_n pos en ce
    by (cases "get_error e") (auto simp: dispatch_get_error split: if_splits)
  obtain d where d: "leads w lead_id = Some d"
    using run sent_n en ce ge by (cases "leads w lead_id") (auto simp: dispatch_not_found)
  have nt: "\<not> truthy (doc_field d ''was_notified'' (PBool False))"
    using run sent_n en ce ge d
    by (cases "truthy (doc_field d ''was_notified'' (PBool False))")
       (auto simp: dispatch_already_notified)
  obtain out w4 where fan0: "main_path_fanout e lead_id ld w = (out, w4)"
    by (cases "main_path_fanout e lead_id ld w")
  obtain r4 where out: "out = Inr r4"
    using dispatch_main_raise [OF en ce ge d nt, of ld _ w4] fan0 run by (cases out) auto
  have fan: "main_path_fanout e lead_id ld w = (Inr r4, w4)"
    using fan0 out by simp
  obtain m where m: "map_of r4 ''notifications_sent'' = Some (PInt (int m))"
    and s: "map_of r4 ''success'' = Some (PBool (0 < m))"
    using main_path_fanout_result [of e lead_id ld w r4] fan by auto
  have rr: "r = r4"
    using dispatch_main [OF en ce ge d nt fan m] run
    by (auto split: if_splits option.splits)
  then show ?thesis using m s sent_n pos by simp
qed

lemma fanout_shape:
  assumes cfg: "lawyers_config e = Inr lawyers" and oe: "only_exceptions e"
  shows "\<exists>results n t. fst (send_notifications_to_lawyers e lead_id f w) =
     Inr [(''success'', PBool (0 < n)),
          (''notifications_sent'', PInt (int n)),
          (''total_lawyers'', PInt (int (length lawyers))),
          (''results'', PList results),
          (''lead_id'', PStr lead_id),
          (''timestamp'', PStr (isoformat e t))]"
proof -
  let ?msg = "notification_message lead_id (lead_name f) (lead_phone f) (area f) (situation f)
                (strftime e (clock e (ticks w)))"
  let ?w0 = "w\<lparr>ticks := Suc (ticks w)\<rparr>"
  obtain p w1 where loop: "notify_lawyers e ?msg lawyers [] 0 ?w0 = (Inr p, w1)"
    using notify_lawyers_exact [OF oe, of ?msg lawyers "[]" 0 ?w0]
    by (cases "notify_lawyers e ?msg lawyers [] 0 ?w0") auto
  obtain results n where p: "p = (results, n)" by (cases p)
  have "fst (send_notifications_to_lawyers e lead_id f w) =
     Inr [(''success'', PBool (0 < n)),
          (''notifications_sent'', PInt (int n)),
          (''total_lawyers'', PInt (int (length lawyers))),
          (''results'', PList results),
          (''lead_id'', PStr lead_id),
          (''timestamp'', PStr (isoformat e (clock e (ticks w1))))]"
    using cfg loop p
    by (simp add: send_notifications_to_lawyers_def send_notifications_to_lawyers_try_def
        now_def)
  then show ?thesis by blast
qed

lemma fanout_config_error:
  assumes "lawyers_config e = Inl x" and "caught x"
  shows "fst (send_notifications_to_lawyers e lead_id f w) =
     Inr [(''success'', PBool False),
          (''notifications_sent'', PInt 0),
          (''error'', PStr (exn_str x))]"
  using assms
  by (simp add: send_notifications_to_lawyers_def send_notifications_to_lawyers_try_def)

lemma dispatch_success_iff:
  "(result_field (send_new_lead_notification e lead_id ld w) ''success'' = Some (PBool True))
     = (\<exists>n. 0 < n \<and> result_field (send_new_lead_notification e lead_id ld w)
                ''notifications_sent'' = Some (PInt n))"
proof (cases "fst (send_new_lead_notification e lead_id ld w)")
  case (Inl y)
  then show ?thesis by (simp add: result_field_def)
next
  case (Inr r)
  then obtain w' where run: "send_new_lead_notification e lead_id ld w = (Inr r, w')"
    by (cases "send_new_lead_notification e lead_id ld w") simp
  show ?thesis
  proof (cases "\<exists>n. 0 < n \<and> map_of r ''notifications_sent'' = Some (PInt n)")
    case True
    then obtain n where n: "map_of r ''notifications_sent'' = Some (PInt n)" "0 < n"
      by blast
    have "map_of r ''success'' = Some (PBool True)"
      using positive_count_success [OF run n] by simp
    then show ?thesis using True Inr by (simp add: result_field_def)
  next
    case False
    have "map_of r ''success'' \<noteq> Some (PBool True)"
    proof
      assume st: "map_of r ''success'' = Some (PBool True)"
      have en: "whatsapp_enabled e"
        using run st by (cases "whatsapp_enabled e") (auto simp: dispatch_disabled)
      have ce: "client_error e = None"
        using run st en
        by (cases "client_error e") (auto simp: dispatch_client_error split: if_splits)
      have ge: "get_error e = None"
        using run st en ce
        by (cases "get_error e") (auto simp: dispatch_get_error split: if_splits)
      obtain d where d: "leads w lead_id = Some d"
        using run st en ce ge by (cases "leads w lead_id") (auto simp: dispatch_not_found)
      have nt: "\<not> truthy (doc_field d ''was_notified'' (PBool False))"
        using run st en ce ge d
        by (cases "truthy (doc_field d ''was_notified'' (PBool False))")
           (auto simp: dispatch_already_notified)
      obtain out w4 where fan0: "main_path_fanout e lead_id ld w = (out, w4)"
        by (cases "main_path_fanout e lead_id ld w")
      obtain r4 where out: "out = Inr r4"
        using dispatch_main_raise [OF en ce ge d nt, of ld _ w4] fan0 run by (cases out) auto
      have fan: "main_path_fanout e lead_id ld w = (Inr r4, w4)"
        using fan0 out by simp
      obtain m where m: "map_of r4 ''notifications_sent'' = Some (PInt (int m))"
        and s: "map_of r4 ''success'' = Some (PBool (0 < m))"
        using main_path_fanout_result [of e lead_id ld w r4] fan by auto
      have rr: "r = r4"
        using dispatch_main [OF en ce ge d nt fan m] run
        by (auto split: if_splits option.splits)
      then have "0 < m" using s st by simp
      then show False using False m rr by auto
    qed
    then show ?thesis using False Inr by (simp add: result_field_def)
  qed
qed

text \<open>
  C5. When the dispatch reaches the fan-out, the list of lawyers loads and the
  collaborators raise nothing but instances of \<open>Exception\<close>, its result is the
  dictionary with the keys \<open>success\<close>, \<open>notifications_sent\<close>, \<open>total_lawyers\<close> (the
  number of configured lawyers), \<open>results\<close>, \<open>lead_id\<close> and \<open>timestamp\<close>. When
  loading the list of lawyers raises an \<open>Exception\<close>, the result is \<open>success\<close> false,
  \<open>notifications_sent\<close> 0 and \<open>error\<close>. In every result \<open>success\<close> is true exactly
  when \<open>notifications_sent\<close> is positive.
\<close>

theorem dispatch_result_shape:
  "(whatsapp_enabled e \<and> client_error e = None \<and> get_error e = None
      \<and> leads w lead_id = Some d
      \<and> \<not> truthy (doc_field d ''was_notified'' (PBool False))
      \<and> lawyers_config e = Inr lawyers \<and> only_exceptions e \<longrightarrow>
    (\<exists>results n t. fst (send_new_lead_notification e lead_id ld w) =
       Inr [(''success'', PBool (0 < n)),
            (''notifications_sent'', PInt (int n)),
            (''total_lawyers'', PInt (int (length lawyers))),
            (''results'', PList results),
            (''lead_id'', PStr lead_id),
            (''timestamp'', PStr (isoformat e t))]))
   \<and> (whatsapp_enabled e \<and> client_error e = None \<and> get_error e = None
      \<and> leads w lead_id = Some d
      \<and> \<not> truthy (doc_field d ''was_notified'' (PBool False))
      \<and> lawyers_config e = Inl x \<and> caught x \<longrightarrow>
    fst (send_new_lead_notification e lead_id ld w) =
       Inr [(''success'', PBool False),
            (''notifications_sent'', PInt 0),
            (''error'', PStr (exn_str x))])
   \<and> ((result_field (send_new_lead_notification e lead_id ld w) ''success'' = Some (PBool True))
       = (\<exists>n. 0 < n \<and> result_field (send_new_lead_notification e lead_id ld w)
                  ''notifications_sent'' = Some (PInt n)))"
proof -
  have shape: "\<exists>results n t. fst (send_new_lead_notification e lead_id ld w) =
       Inr [(''success'', PBool (0 < n)),
            (''notifications_sent'', PInt (int n)),
            (''total_lawyers'', PInt (int (length lawyers))),
            (''results'', PList results),
            (''lead_id'', PStr lead_id),
            (''timestamp'', PStr (isoformat e t))]"
    if g: "whatsapp_enabled e" "client_error e = None" "get_error e = None"
      "leads w lead_id = Some d" "\<not> truthy (doc_field d ''was_notified'' (PBool False))"
      and l: "lawyers_config e = Inr lawyers" and oe: "only_exceptions e"
  proof -
    obtain results n t where f: "fst (main_path_fanout e lead_id ld w) =
       Inr [(''success'', PBool (0 < n)),
            (''notifications_sent'', PInt (int n)),
            (''total_lawyers'', PInt (int (length lawyers))),
            (''results'', PList results),
            (''lead_id'', PStr lead_id),
            (''timestamp'', PStr (isoformat e t))]"
      using fanout_shape [OF l oe, of lead_id "extract_lead_fields (unicode_digit e) ld"
          "before_fanout e lead_id ld w"]
      unfolding main_path_fanout_def by blast
    have u: "case update_error e of None \<Rightarrow> True | Some x \<Rightarrow> caught x"
      using oe by (simp add: only_exceptions_def)
    show ?thesis
      using dispatch_main_result [OF g f u] by blast
  qed
  have failed: "fst (send_new_lead_notification e lead_id ld w) =
       Inr [(''success'', PBool False),
            (''notifications_sent'', PInt 0),
            (''error'', PStr (exn_str x))]"
    if g: "whatsapp_enabled e" "client_error e = None" "get_error e = None"
      "leads w lead_id = Some d" "\<not> truthy (doc_field d ''was_notified'' (PBool False))"
      and l: "lawyers_config e = Inl x" and c: "caught x"
  proof -
    let ?r = "[(''success'', PBool False), (''notifications_sent'', PInt 0),
               (''error'', PStr (exn_str x))]"
    obtain w4 where f: "main_path_fanout e lead_id ld w = (Inr ?r, w4)"
      using fanout_config_error [OF l c, of lead_id "extract_lead_fields (unicode_digit e) ld"
          "before_fanout e lead_id ld w"]
      by (cases "main_path_fanout e lead_id ld w") (simp add: main_path_fanout_def)
    have n: "map_of ?r ''notifications_sent'' = Some (PInt 0)" by simp
    show ?thesis
      using dispatch_main [OF g f n] by simp
  qed
  show ?thesis
    using shape failed dispatch_success_iff [of e lead_id ld w] by blast
qed

theorem dispatch_result_shape_witness:
  "whatsapp_enabled example_env \<and> client_error example_env = None
   \<and> get_error example_env = None
   \<and> leads example_world (str ''L1'') = Some [''status'' \<mapsto> PStr (str ''new'')]
   \<and> \<not> truthy (doc_field [''status'' \<mapsto> PStr (str ''new'')] ''was_notified'' (PBool False))
   \<and> lawyers_config example_env =
        Inr [\<lparr>lawyer_name = Some (str ''Rita''), lawyer_phone = Some (str ''5511911111111'')\<rparr>,
             \<lparr>lawyer_name = Some (str ''Joao''), lawyer_phone = Some (str ''5511922222222'')\<rparr>]
   \<and> only_exceptions example_env
   \<and> fst (send_new_lead_notification example_env (str ''L1'') example_lead example_world)
       = Inr example_result
   \<and> map_of example_result ''success'' = Some (PBool True)
   \<and> map_of example_result ''notifications_sent'' = Some (PInt 1)
   \<and> map_of example_result ''total_lawyers'' = Some (PInt 2)
   \<and> whatsapp_enabled failing_config_env \<and> client_error failing_config_env = None
   \<and> get_error failing_config_env = None
   \<and> lawyers_config failing_config_env = Inl (Exn (str ''no config''))
   \<and> caught (Exn (str ''no config''))
   \<and> fst (send_new_lead_notification failing_config_env (str ''L1'') example_lead example_world)
       = Inr [(''success'', PBool False),
              (''notifications_sent'', PInt 0),
              (''error'', PStr (str ''no config''))]"
proof -
  have a: "\<exists>results n t.
      fst (send_new_lead_notification example_env (str ''L1'') example_lead example_world) =
       Inr [(''success'', PBool (0 < n)),
            (''notifications_sent'', PInt (int n)),
            (''total_lawyers'', PInt (int (length
               [\<lparr>lawyer_name = Some (str ''Rita''), lawyer_phone = Some (str ''5511911111111'')\<rparr>,
                \<lparr>lawyer_name = Some (str ''Joao''),
                   lawyer_phone = Some (str ''5511922222222'')\<rparr>]))),
            (''results'', PList results),
            (''lead_id'', PStr (str ''L1'')),
            (''timestamp'', PStr (isoformat example_env t))]"
    using dispatch_result_shape [where e = example_env and w = example_world
        and lead_id = "str ''L1''" and d = "[''status'' \<mapsto> PStr (str ''new'')]"
        and ld = example_lead]
      example_enabled example_gates example_lawyers example_only
    by blast
  have b: "fst (send_new_lead_notification failing_config_env (str ''L1'') example_lead
             example_world)
       = Inr [(''success'', PBool False),
              (''notifications_sent'', PInt 0),
              (''error'', PStr (str ''no config''))]"
    using dispatch_result_shape [where e = failing_config_env and w = example_world
        and lead_id = "str ''L1''" and d = "[''status'' \<mapsto> PStr (str ''new'')]"
        and ld = example_lead and x = "Exn (str ''no config'')"]
      failing_config_gates example_gates(4,5)
    by simp
  show ?thesis
    using a b example_enabled example_gates example_lawyers example_only example_dispatch
      failing_config_gates
    by (simp add: example_result_def)
qed

text \<open>
  The result has no key \<open>total_recipients\<close>; and when the list of lawyers cannot be
  loaded the result has neither \<open>results\<close> nor \<open>lead_id\<close>.
\<close>

theorem dispatch_result_shape_counterexample:
  "result_field (send_new_lead_notification example_env (str ''L1'') example_lead example_world)
      ''total_recipients'' = None
   \<and> result_field (send_new_lead_notification example_env (str ''L1'') example_lead example_world)
      ''total_lawyers'' = Some (PInt 2)
   \<and> whatsapp_enabled failing_config_env
   \<and> result_field
        (send_new_lead_notification failing_config_env (str ''L1'') example_lead example_world)
      ''results'' = None
   \<and> result_field
        (send_new_lead_notification failing_config_env (str ''L1'') example_lead example_world)
      ''lead_id'' = None"
proof -
  have "fst (send_new_lead_notification failing_config_env (str ''L1'') example_lead
             example_world)
       = Inr [(''success'', PBool False),
              (''notifications_sent'', PInt 0),
              (''error'', PStr (str ''no config''))]"
    using fanout_config_error [of failing_config_env "Exn (str ''no config'')" "str ''L1''"
        "extract_lead_fields (unicode_digit failing_config_env) example_lead"
        "before_fanout failing_config_env (str ''L1'') example_lead example_world"]
      dispatch_main_result [OF failing_config_gates(1,2,3) example_gates(4,5),
        of example_lead] failing_config_gates(4,5)
    by (simp add: main_path_fanout_def)
  then show ?thesis
    using example_dispatch failing_config_gates(1)
    by (simp add: result_field_def example_result_def)
qed

section \<open>The outgoing message: truncation of the situation\<close>

lemma message_parts:
  "\<exists>pre post. \<forall>sit. notification_message lead_id name phone ar sit stamp =
     pre @ (if length sit > 200 then take 200 sit @ str ''...'' else sit) @ post"
  unfolding notification_message_def
  apply (rule exI[of _ "[0x1F6A8] @ str '' *Novo Cliente Recebido!*'' @ nl
     @ nl
     @ [0x1F464] @ str '' *Nome:* '' @ name @ nl
     @ [0x1F4DE] @ str '' *Telefone:* '' @ phone @ nl
     @ [0x2696, 0xFE0F] @ str '' *'' @ [0xC1] @ str ''rea:* '' @ ar @ nl
     @ [0x1F4DD] @ str '' *Situa'' @ [0xE7, 0xE3] @ str ''o:* ''"])
  apply (rule exI[of _ "nl
     @ nl
     @ [0x1F194] @ str '' *Lead ID:* '' @ lead_id @ nl
     @ [0x23F0] @ str '' *Recebido em:* '' @ stamp @ nl
     @ nl
     @ str ''_Mensagem enviada automaticamente pelo sistema de capta''
       @ [0xE7, 0xE3] @ str ''o de leads._''"])
  by simp

text \<open>
  C7. The message is a fixed text around the situation, which appears cut to its first
  200 characters and followed by three dots when it is longer than 200 characters, and
  in full with nothing added when it has 200 characters or fewer. Every text the
  dispatch hands to the messaging client is that message, built from the extracted
  fields; on the main path one goes to each lawyer that has a phone whose number
  formats.
\<close>

theorem situation_truncated_over_200:
  "(\<exists>pre post. \<forall>sit. notification_message lead_id name phone ar sit stamp =
      pre @ (if length sit > 200 then take 200 sit @ str ''...'' else sit) @ post)
   \<and> (\<exists>new. sent (snd (send_new_lead_notification e lead_id ld w)) = sent w @ new
        \<and> list_all (\<lambda>m. snd m =
              notification_message lead_id
                (lead_name (extract_lead_fields (unicode_digit e) ld))
                (lead_phone (extract_lead_fields (unicode_digit e) ld))
                (area (extract_lead_fields (unicode_digit e) ld))
                (situation (extract_lead_fields (unicode_digit e) ld))
                (strftime e (clock e (ticks w)))) new)
   \<and> (whatsapp_enabled e \<and> client_error e = None \<and> get_error e = None
        \<and> leads w lead_id = Some d
        \<and> \<not> truthy (doc_field d ''was_notified'' (PBool False))
        \<and> lawyers_config e = Inr lawyers \<and> only_exceptions e \<longrightarrow>
      sent (snd (send_new_lead_notification e lead_id ld w)) =
        sent w @ fanout_sends e
          (notification_message lead_id
             (lead_name (extract_lead_fields (unicode_digit e) ld))
             (lead_phone (extract_lead_fields (unicode_digit e) ld))
             (area (extract_lead_fields (unicode_digit e) ld))
             (situation (extract_lead_fields (unicode_digit e) ld))
             (strftime e (clock e (ticks w)))) lawyers)"
  using message_parts [of lead_id name phone ar stamp] dispatch_sent [of e lead_id ld w]
    dispatch_sent_exact [of e w lead_id d lawyers ld]
  unfolding dispatch_message_def by blast

lemma long_fields:
  "extract_lead_fields (unicode_digit example_env) long_lead =
     placeholders\<lparr>situation := replicate 201 120\<rparr>"
  by (simp add: extract_lead_fields_def get_answers_def long_lead_def parse_answer_def
      get_id_def get_text_def)

theorem situation_truncated_over_200_witness:
  "whatsapp_enabled example_env \<and> client_error example_env = None
   \<and> get_error example_env = None
   \<and> leads example_world (str ''L1'') = Some [''status'' \<mapsto> PStr (str ''new'')]
   \<and> \<not> truthy (doc_field [''status'' \<mapsto> PStr (str ''new'')] ''was_notified'' (PBool False))
   \<and> lawyers_config example_env =
        Inr [\<lparr>lawyer_name = Some (str ''Rita''), lawyer_phone = Some (str ''5511911111111'')\<rparr>,
             \<lparr>lawyer_name = Some (str ''Joao''), lawyer_phone = Some (str ''5511922222222'')\<rparr>]
   \<and> only_exceptions example_env
   \<and> length (situation (extract_lead_fields (unicode_digit example_env) long_lead)) = 201
   \<and> map fst (sent (snd (send_new_lead_notification example_env (str ''L1'') long_lead
                           example_world)))
       = [str ''5511911111111@s.whatsapp.net'', str ''5511922222222@s.whatsapp.net'']
   \<and> map (\<lambda>m. take 204 (drop 130 (snd m)))
         (sent (snd (send_new_lead_notification example_env (str ''L1'') long_lead
                       example_world)))
       = [replicate 200 120 @ str ''...'' @ nl, replicate 200 120 @ str ''...'' @ nl]"
proof -
  have s: "sent (snd (send_new_lead_notification example_env (str ''L1'') long_lead
                        example_world)) =
        sent example_world @ fanout_sends example_env
          (notification_message (str ''L1'')
             (lead_name (extract_lead_fields (unicode_digit example_env) long_lead))
             (lead_phone (extract_lead_fields (unicode_digit example_env) long_lead))
             (area (extract_lead_fields (unicode_digit example_env) long_lead))
             (situation (extract_lead_fields (unicode_digit example_env) long_lead))
             (strftime example_env (clock example_env (ticks example_world))))
          [\<lparr>lawyer_name = Some (str ''Rita''), lawyer_phone = Some (str ''5511911111111'')\<rparr>,
           \<lparr>lawyer_name = Some (str ''Joao''), lawyer_phone = Some (str ''5511922222222'')\<rparr>]"
    using situation_truncated_over_200 [where e = example_env and w = example_world
        and lead_id = "str ''L1''" and d = "[''status'' \<mapsto> PStr (str ''new'')]"
        and ld = long_lead]
      example_enabled example_gates example_lawyers example_only
    by blast
  have f: "format_phone example_env = (\<lambda>p. Inr (p @ str ''@s.whatsapp.net''))"
    "sent example_world = []"
    by (simp_all add: example_env_def example_world_def)
  have l: "length (situation (extract_lead_fields (unicode_digit example_env) long_lead)) = 201"
    by (simp add: long_fields)
  have a: "map fst (sent (snd (send_new_lead_notification example_env (str ''L1'') long_lead
                           example_world)))
       = [str ''5511911111111@s.whatsapp.net'', str ''5511922222222@s.whatsapp.net'']"
    unfolding s by (simp add: fanout_sends_def f str_def)
  have b: "map (\<lambda>m. take 204 (drop 130 (snd m)))
         (sent (snd (send_new_lead_notification example_env (str ''L1'') long_lead
                       example_world)))
       = [replicate 200 120 @ str ''...'' @ nl, replicate 200 120 @ str ''...'' @ nl]"
    unfolding s
    by (simp add: fanout_sends_def f long_fields placeholders_def notification_message_def
        str_def nl_def)
  show ?thesis
    using example_enabled example_gates example_lawyers example_only l a b by simp
qed

lemma extract_no_answers:
  "extract_lead_fields dig \<lparr>answers = None\<rparr> = placeholders"
  "extract_lead_fields dig \<lparr>answers = Some []\<rparr> = placeholders"
  by (simp_all add: extract_lead_fields_def get_answers_def)

lemma dispatch_fanout_result:
  assumes g: "whatsapp_enabled e" "client_error e = None" "get_error e = None"
    "leads w lead_id = Some d" "\<not> truthy (doc_field d ''was_notified'' (PBool False))"
    and oe: "only_exceptions e"
  shows "fst (send_new_lead_notification e lead_id ld w) = fst (main_path_fanout e lead_id ld w)"
proof -
  have u: "case update_error e of None \<Rightarrow> True | Some x \<Rightarrow> caught x"
    using oe by (simp add: only_exceptions_def)
  obtain out w4 where fan: "main_path_fanout e lead_id ld w = (out, w4)"
    by (cases "main_path_fanout e lead_id ld w")
  show ?thesis
  proof (cases out)
    case (Inl y)
    then show ?thesis using dispatch_main_raise [OF g, of ld y w4] fan by simp
  next
    case (Inr r)
    then show ?thesis using dispatch_main_result [OF g _ u, of ld r] fan by simp
  qed
qed

text \<open>
  C9. The key \<open>answers\<close> may be absent from \<open>lead_data\<close>: the dispatch then does exactly
  what it does for an empty list of answers, and the four fields are the placeholders.
  On the main path the fan-out still runs: the dispatch returns what the fan-out
  returns for the placeholders, and the world it leaves holds one send, of the message
  built from the placeholders, to each lawyer that has a phone whose number formats.
\<close>

theorem answers_key_optional:
  "send_new_lead_notification e lead_id \<lparr>answers = None\<rparr> w
     = send_new_lead_notification e lead_id \<lparr>answers = Some []\<rparr> w
   \<and> extract_lead_fields dig \<lparr>answers = None\<rparr> = placeholders
   \<and> (whatsapp_enabled e \<and> client_error e = None \<and> get_error e = None
        \<and> leads w lead_id = Some d
        \<and> \<not> truthy (doc_field d ''was_notified'' (PBool False))
        \<and> only_exceptions e \<longrightarrow>
      fst (send_new_lead_notification e lead_id \<lparr>answers = None\<rparr> w) =
        fst (send_notifications_to_lawyers e lead_id placeholders
               (before_fanout e lead_id \<lparr>answers = None\<rparr> w)))
   \<and> (whatsapp_enabled e \<and> client_error e = None \<and> get_error e = None
        \<and> leads w lead_id = Some d
        \<and> \<not> truthy (doc_field d ''was_notified'' (PBool False))
        \<and> lawyers_config e = Inr lawyers \<and> only_exceptions e \<longrightarrow>
      sent (snd (send_new_lead_notification e lead_id \<lparr>answers = None\<rparr> w)) =
        sent w @ fanout_sends e
          (notification_message lead_id (lead_name placeholders) (lead_phone placeholders)
             (area placeholders) (situation placeholders) (strftime e (clock e (ticks w))))
          lawyers)"
proof -
  have same: "send_new_lead_notification e lead_id \<lparr>answers = None\<rparr> w
     = send_new_lead_notification e lead_id \<lparr>answers = Some []\<rparr> w"
    unfolding send_new_lead_notification_def send_new_lead_notification_try_def
      extract_no_answers by (rule refl)
  have main: "fst (send_new_lead_notification e lead_id \<lparr>answers = None\<rparr> w) =
        fst (send_notifications_to_lawyers e lead_id placeholders
               (before_fanout e lead_id \<lparr>answers = None\<rparr> w))"
    if "whatsapp_enabled e" "client_error e = None" "get_error e = None"
      "leads w lead_id = Some d" "\<not> truthy (doc_field d ''was_notified'' (PBool False))"
      "only_exceptions e"
    using dispatch_fanout_result [OF that, of "\<lparr>answers = None\<rparr>"]
    by (simp add: main_path_fanout_def extract_no_answers)
  have sends: "sent (snd (send_new_lead_notification e lead_id \<lparr>answers = None\<rparr> w)) =
        sent w @ fanout_sends e
          (notification_message lead_id (lead_name placeholders) (lead_phone placeholders)
             (area placeholders) (situation placeholders) (strftime e (clock e (ticks w))))
          lawyers"
    if "whatsapp_enabled e" "client_error e = None" "get_error e = None"
      "leads w lead_id = Some d" "\<not> truthy (doc_field d ''was_notified'' (PBool False))"
      "lawyers_config e = Inr lawyers" "only_exceptions e"
    using dispatch_sent_exact [OF that, of "\<lparr>answers = None\<rparr>"]
    by (simp add: dispatch_message_def extract_no_answers)
  show ?thesis
    using same main sends by (simp add: extract_no_answers)
qed

theorem answers_key_optional_witness:
  "whatsapp_enabled example_env \<and> client_error example_env = None
   \<and> get_error example_env = None
   \<and> leads example_world (str ''L1'') = Some [''status'' \<mapsto> PStr (str ''new'')]
   \<and> \<not> truthy (doc_field [''status'' \<mapsto> PStr (str ''new'')] ''was_notified'' (PBool False))
   \<and> lawyers_config example_env =
        Inr [\<lparr>lawyer_name = Some (str ''Rita''), lawyer_phone = Some (str ''5511911111111'')\<rparr>,
             \<lparr>lawyer_name = Some (str ''Joao''), lawyer_phone = Some (str ''5511922222222'')\<rparr>]
   \<and> only_exceptions example_env
   \<and> result_field (send_new_lead_notification example_env (str ''L1'') \<lparr>answers = None\<rparr>
                     example_world) ''notifications_sent'' = Some (PInt 1)
   \<and> map fst (sent (snd (send_new_lead_notification example_env (str ''L1'') \<lparr>answers = None\<rparr>
                           example_world)))
       = [str ''5511911111111@s.whatsapp.net'', str ''5511922222222@s.whatsapp.net'']
   \<and> map (\<lambda>m. take 24 (drop 38 (snd m)))
         (sent (snd (send_new_lead_notification example_env (str ''L1'') \<lparr>answers = None\<rparr>
                       example_world)))
       = [lead_name placeholders, lead_name placeholders]"
proof -
  note k = answers_key_optional [where e = example_env and w = example_world
        and lead_id = "str ''L1''" and d = "[''status'' \<mapsto> PStr (str ''new'')]"
        and dig = ascii_digit]
  have r: "fst (send_new_lead_notification example_env (str ''L1'') \<lparr>answers = None\<rparr>
                  example_world) =
        fst (send_notifications_to_lawyers example_env (str ''L1'') placeholders
               (before_fanout example_env (str ''L1'') \<lparr>answers = None\<rparr> example_world))"
    using k example_enabled example_gates example_only by blast
  have s: "sent (snd (send_new_lead_notification example_env (str ''L1'') \<lparr>answers = None\<rparr>
                        example_world)) =
        sent example_world @ fanout_sends example_env
          (notification_message (str ''L1'') (lead_name placeholders) (lead_phone placeholders)
             (area placeholders) (situation placeholders)
             (strftime example_env (clock example_env (ticks example_world))))
          [\<lparr>lawyer_name = Some (str ''Rita''), lawyer_phone = Some (str ''5511911111111'')\<rparr>,
           \<lparr>lawyer_name = Some (str ''Joao''), lawyer_phone = Some (str ''5511922222222'')\<rparr>]"
    using k example_enabled example_gates example_lawyers example_only by blast
  have f: "format_phone example_env = (\<lambda>p. Inr (p @ str ''@s.whatsapp.net''))"
    "sent example_world = []"
    by (simp_all add: example_env_def example_world_def)
  have n: "result_field (send_new_lead_notification example_env (str ''L1'') \<lparr>answers = None\<rparr>
                     example_world) ''notifications_sent'' = Some (PInt 1)"
    unfolding result_field_def r
    by (simp add: before_fanout_def send_notifications_to_lawyers_def
      send_notifications_to_lawyers_try_def notify_lawyer_def now_def add_log_def Let_def
      example_env_def example_world_def str_def)
  have a: "map fst (sent (snd (send_new_lead_notification example_env (str ''L1'')
                           \<lparr>answers = None\<rparr> example_world)))
       = [str ''5511911111111@s.whatsapp.net'', str ''5511922222222@s.whatsapp.net'']"
    unfolding s by (simp add: fanout_sends_def f str_def)
  have b: "map (\<lambda>m. take 24 (drop 38 (snd m)))
         (sent (snd (send_new_lead_notification example_env (str ''L1'') \<lparr>answers = None\<rparr>
                       example_world)))
       = [lead_name placeholders, lead_name placeholders]"
    unfolding s
    by (simp add: fanout_sends_def f placeholders_def notification_message_def str_def nl_def)
  show ?thesis
    using example_enabled example_gates example_lawyers example_only n a b by simp
qed

end
